theory Spec2Isabelle
  imports
    Main
    "HOL-Library.Char_ord"
    "HOL-Library.List_Lexorder"
    "HOL-Library.AList"
begin

section \<open>Python values and exceptions\<close>

text \<open>
  Every exception class that the modelled code raises, catches or lets pass.
  \<open>TypeError\<close>, \<open>KeyError\<close>, \<open>ValueError\<close> and \<open>AttributeError\<close> are the Python built-ins
  and carry their message; the \<open>Client\<close>, \<open>Storage\<close> and \<open>Driver\<close> constructors are the classes of
  \<^verbatim>\<open>clients.backend.exceptions\<close>, \<^verbatim>\<open>storage.exceptions\<close> and \<^verbatim>\<open>drivers.exceptions\<close>;
  the \<open>Bazooka\<close> constructors are the HTTP library's errors, \<open>BazookaError\<close> standing for
  every one that \<^verbatim>\<open>rest.py\<close> does not catch.
\<close>

datatype exn =
    TypeError string
  | KeyError string
  | ValueError string
  | AttributeError string
  | ClientResourceNotFound
  | ClientResourceAlreadyExists
  | ClientResourceProjectMismatch
  | StorageItemNotFound
  | StorageItemAlreadyExists
  | DriverResourceNotFound
  | DriverResourceAlreadyExists
  | BazookaNotFoundError
  | BazookaConflictError
  | BazookaError string

text \<open>
  A Python \<^verbatim>\<open>float\<close>: the three values that JSON has no literal for, or a finite number,
  represented by the text that \<^verbatim>\<open>float.__repr__\<close> gives for it.
\<close>

datatype pyfloat =
    FNaN
  | FInfinity
  | FNegInfinity
  | FFinite string

text \<open>
  A Python value as \<^verbatim>\<open>json.dumps\<close> sees it. A \<^verbatim>\<open>dict\<close> is the list of its items in
  insertion order; \<open>JDict\<close> is a dict whose keys are strings, as the transport delivers
  them, and \<open>JDictBadKey t\<close> is a dict that has a key of a type \<open>t\<close> which is none of
  \<^verbatim>\<open>str\<close>, \<^verbatim>\<open>int\<close>, \<^verbatim>\<open>float\<close>, \<^verbatim>\<open>bool\<close> and \<^verbatim>\<open>None\<close> (a tuple, bytes). \<open>JObject t\<close> is an object
  of a type \<open>t\<close> that the encoder has no rule for (a UUID, a datetime). \<open>JCircular\<close> is a
  reference to a list or dict that encloses it, which makes the structure cyclic.
  Strings are lists of code points below 256. Dicts whose keys are numbers, booleans
  or \<^verbatim>\<open>None\<close> are left out.
\<close>

datatype json =
    JNull
  | JBool bool
  | JInt int
  | JFloat pyfloat
  | JStr string
  | JList "json list"
  | JDict "(string \<times> json) list"
  | JDictBadKey string
  | JObject string
  | JCircular

type_synonym pydict = "(string \<times> json) list"

section \<open>The hash engine: \<^verbatim>\<open>agents/universal/utils.py\<close>\<close>

subsection \<open>\<^verbatim>\<open>json.dumps(value, separators=(",", ":"), sort_keys=True)\<close>\<close>

definition hex_digit :: "nat \<Rightarrow> char" where
  "hex_digit n = (''0123456789abcdef'' ! (n mod 16))"

text \<open>
  The encoder escapes with \<^verbatim>\<open>ensure_ascii\<close> on: backslash, double quote and the five named
  control characters get their two-character form, the printable ASCII range stays, and
  everything else becomes \<^verbatim>\<open>\u00xx\<close>.
\<close>

definition escape_char :: "char \<Rightarrow> string" where
  "escape_char c =
     (if c = CHR 0x5C then [CHR 0x5C, CHR 0x5C]
      else if c = CHR 0x22 then [CHR 0x5C, CHR 0x22]
      else if c = CHR 0x08 then [CHR 0x5C, CHR ''b'']
      else if c = CHR 0x0C then [CHR 0x5C, CHR ''f'']
      else if c = CHR 0x0A then [CHR 0x5C, CHR ''n'']
      else if c = CHR 0x0D then [CHR 0x5C, CHR ''r'']
      else if c = CHR 0x09 then [CHR 0x5C, CHR ''t'']
      else if 32 \<le> (of_char c :: nat) \<and> (of_char c :: nat) \<le> 126 then [c]
      else [CHR 0x5C, CHR ''u'', CHR ''0'', CHR ''0'',
            hex_digit (of_char c div 16), hex_digit (of_char c)])"

definition encode_basestring_ascii :: "string \<Rightarrow> string" where
  "encode_basestring_ascii s = [CHR 0x22] @ concat (map escape_char s) @ [CHR 0x22]"

function nat_repr :: "nat \<Rightarrow> string" where
  "nat_repr n =
     (if n < 10 then [hex_digit n] else nat_repr (n div 10) @ [hex_digit (n mod 10)])"
  by pat_completeness auto
termination
  by (relation "measure id") auto

definition int_repr :: "int \<Rightarrow> string" where
  "int_repr i = (if i < 0 then CHR ''-'' # nat_repr (nat (- i)) else nat_repr (nat i))"

fun join :: "string \<Rightarrow> string list \<Rightarrow> string" where
  "join sep [] = []"
| "join sep [s] = s"
| "join sep (s # t # ss) = s @ sep @ join sep (t # ss)"

text \<open>The first element that raises ends the iteration, as the exception would.\<close>

fun sequence :: "(exn + 'a) list \<Rightarrow> exn + 'a list" where
  "sequence [] = Inr []"
| "sequence (x # xs) =
     (case x of
        Inl e \<Rightarrow> Inl e
      | Inr a \<Rightarrow> (case sequence xs of Inl e \<Rightarrow> Inl e | Inr as \<Rightarrow> Inr (a # as)))"

definition not_serializable :: "string \<Rightarrow> exn" where
  "not_serializable t = TypeError (''Object of type '' @ t @ '' is not JSON serializable'')"

definition bad_key :: "string \<Rightarrow> exn" where
  "bad_key t = TypeError (''keys must be str, int, float, bool or None, not '' @ t)"

definition circular_reference :: exn where
  "circular_reference = ValueError ''Circular reference detected''"

text \<open>
  With \<^verbatim>\<open>allow_nan\<close> left on, the encoder writes the three special floats as the words
  below, which are no JSON, and raises nothing.
\<close>

fun float_repr :: "pyfloat \<Rightarrow> string" where
  "float_repr FNaN = ''NaN''"
| "float_repr FInfinity = ''Infinity''"
| "float_repr FNegInfinity = ''-Infinity''"
| "float_repr (FFinite s) = s"

text \<open>
  With \<^verbatim>\<open>sort_keys=True\<close> the encoder sorts the items of every dict by key (keys are
  unique, so the values are never compared) and writes them with the separators
  \<^verbatim>\<open>,\<close> and \<^verbatim>\<open>:\<close>, without whitespace. With \<^verbatim>\<open>check_circular\<close> left on, a container met
  again inside itself raises \<^verbatim>\<open>ValueError\<close>. A dict with a key of a refused type raises
  \<^verbatim>\<open>TypeError\<close> before any of its values is encoded: from the sort when its keys do not
  compare, from the encoder otherwise.
\<close>

fun json_dumps :: "json \<Rightarrow> exn + string" where
  "json_dumps JNull = Inr ''null''"
| "json_dumps (JBool b) = Inr (if b then ''true'' else ''false'')"
| "json_dumps (JInt i) = Inr (int_repr i)"
| "json_dumps (JFloat f) = Inr (float_repr f)"
| "json_dumps (JStr s) = Inr (encode_basestring_ascii s)"
| "json_dumps (JList xs) =
     (case sequence (map json_dumps xs) of
        Inl e \<Rightarrow> Inl e
      | Inr ss \<Rightarrow> Inr (''['' @ join '','' ss @ '']''))"
| "json_dumps (JDict kvs) =
     (case sequence (map (\<lambda>(k, v). case json_dumps v of
                                        Inl e \<Rightarrow> Inl e
                                      | Inr s \<Rightarrow> Inr (encode_basestring_ascii k @ '':'' @ s))
                         (sort_key fst kvs)) of
        Inl e \<Rightarrow> Inl e
      | Inr ss \<Rightarrow> Inr (''{'' @ join '','' ss @ ''}''))"
| "json_dumps (JDictBadKey t) = Inl (bad_key t)"
| "json_dumps (JObject t) = Inl (not_serializable t)"
| "json_dumps JCircular = Inl circular_reference"

subsection \<open>\<^verbatim>\<open>calculate_hash\<close>\<close>

text \<open>
  \<open>hash_method\<close> is the function's own parameter (\<^verbatim>\<open>hashlib.sha256\<close> by default), a
  constructor of hash objects: the code calls it without argument, feeds the encoded
  text with \<^verbatim>\<open>update\<close> and reads \<^verbatim>\<open>hexdigest()\<close>. Here it is the map from the text to that
  digest. The text is ASCII, so encoding it as UTF-8 changes nothing. An exception of
  \<^verbatim>\<open>json.dumps\<close> is not caught.
\<close>

definition calculate_hash :: "(string \<Rightarrow> string) \<Rightarrow> json \<Rightarrow> exn + string" where
  "calculate_hash hash_method v =
     (case json_dumps v of Inl e \<Rightarrow> Inl e | Inr s \<Rightarrow> Inr (hash_method s))"

text \<open>A Python dict has each key once, at every nesting level.\<close>

fun wf_json :: "json \<Rightarrow> bool" where
  "wf_json (JList xs) = (\<forall>x\<in>set xs. wf_json x)"
| "wf_json (JDict kvs) = (distinct (map fst kvs) \<and> (\<forall>(k, v)\<in>set kvs. wf_json v))"
| "wf_json _ = True"

text \<open>
  Two values have the same content when they differ at most in the insertion order of
  their dicts: the same keys, and under each key values of the same content; lists
  element by element; everything else equal.
\<close>

function (sequential) same_content :: "json \<Rightarrow> json \<Rightarrow> bool" where
  "same_content (JDict xs) (JDict ys) =
     (set (map fst xs) = set (map fst ys) \<and>
      (\<forall>(k, v)\<in>set xs. \<forall>(k', w)\<in>set ys. k = k' \<longrightarrow> same_content v w))"
| "same_content (JList xs) (JList ys) =
     (length xs = length ys \<and> (\<forall>(v, w)\<in>set (zip xs ys). same_content v w))"
| "same_content a b = (a = b)"
  by pat_completeness auto
termination
proof (relation "measure (\<lambda>(a, b). size a)")
  show "wf (measure (\<lambda>(a, b). size a))"
    by simp
next
  fix xs ys :: "(string \<times> json) list" and x y :: "string \<times> json" and k k' v w
  assume "x \<in> set xs" and "(k, v) = x"
  then have "(k, v) \<in> set xs"
    by simp
  then have "size v < Suc (size_list (size_prod (\<lambda>_. 0) size) xs)"
    by (induction xs) auto
  then show "((v, w), (JDict xs, JDict ys)) \<in> measure (\<lambda>(a, b). size a)"
    by simp
next
  fix xs ys :: "json list" and x :: "json \<times> json" and v w
  assume "x \<in> set (zip xs ys)" and "(v, w) = x"
  then have "v \<in> set xs"
    by (auto dest: set_zip_leftD)
  then have "size v < Suc (size_list size xs)"
    by (induction xs) auto
  then show "((v, w), (JList xs, JList ys)) \<in> measure (\<lambda>(a, b). size a)"
    by simp
qed

text \<open>
  A value can be canonically serialized when it has a JSON text: it holds no object
  without an encoding, no key of a refused type, no cycle, and no float that JSON has no
  literal for.
\<close>

fun canonical :: "json \<Rightarrow> bool" where
  "canonical (JObject t) = False"
| "canonical (JDictBadKey t) = False"
| "canonical JCircular = False"
| "canonical (JFloat f) = (case f of FFinite s \<Rightarrow> True | _ \<Rightarrow> False)"
| "canonical (JList xs) = (\<forall>x\<in>set xs. canonical x)"
| "canonical (JDict kvs) = (\<forall>(k, v)\<in>set kvs. canonical v)"
| "canonical _ = True"

text \<open>What makes the encoder raise: a \<^verbatim>\<open>TypeError\<close> or a \<^verbatim>\<open>ValueError\<close>.\<close>

fun has_unencodable :: "json \<Rightarrow> bool" where
  "has_unencodable (JObject t) = True"
| "has_unencodable (JDictBadKey t) = True"
| "has_unencodable (JList xs) = (\<exists>x\<in>set xs. has_unencodable x)"
| "has_unencodable (JDict kvs) = (\<exists>(k, v)\<in>set kvs. has_unencodable v)"
| "has_unencodable _ = False"

fun has_circular :: "json \<Rightarrow> bool" where
  "has_circular JCircular = True"
| "has_circular (JList xs) = (\<exists>x\<in>set xs. has_circular x)"
| "has_circular (JDict kvs) = (\<exists>(k, v)\<in>set kvs. has_circular v)"
| "has_circular _ = False"


section \<open>Resources, target fields and backend items\<close>

text \<open>
  A \<^verbatim>\<open>uuid.UUID\<close> object is represented by its canonical text, so \<^verbatim>\<open>str(u)\<close> is \<open>u\<close> itself.
  How the constructor \<^verbatim>\<open>sys_uuid.UUID(hex)\<close> of the standard library parses a string is a
  parameter \<open>UUID\<close> of the functions that call it: it gives the object or the exception
  raised. An argument that is no string makes the constructor raise: \<^verbatim>\<open>None\<close> a TypeError,
  anything else an AttributeError, since it has no \<^verbatim>\<open>replace\<close>.
\<close>

type_synonym uuid = string

definition make_uuid :: "(string \<Rightarrow> exn + uuid) \<Rightarrow> json \<Rightarrow> exn + uuid" where
  "make_uuid UUID j =
     (case j of
        JStr s \<Rightarrow> UUID s
      | JNull \<Rightarrow>
          Inl (TypeError
                 ''one of the hex, bytes, bytes_le, fields, or int arguments must be given'')
      | _ \<Rightarrow> Inl (AttributeError ''replace''))"

text \<open>
  Modelled from the spec: \<^verbatim>\<open>dm.models.Resource\<close> is not under src/. Section 3 gives it the
  attributes uuid, kind, value (the attribute mapping) and target_fields.
\<close>

record resource =
  r_uuid :: uuid
  r_kind :: string
  r_value :: pydict
  r_target_fields :: "string set"

text \<open>
  Modelled from the spec: \<^verbatim>\<open>storage.base.TargetFieldItem\<close> is not under src/; the driver
  builds it from a kind, a uuid and a frozenset of field names and reads \<^verbatim>\<open>uuid\<close> and
  \<^verbatim>\<open>fields\<close> back.
\<close>

record target_field_item =
  tf_kind :: string
  tf_uuid :: uuid
  tf_fields :: "string set"

text \<open>
  Modelled from the spec: \<^verbatim>\<open>dm.models.ResourceMixin\<close>, the opaque model a backend may
  return, is not under src/. The driver calls \<^verbatim>\<open>get_resource_uuid()\<close> on it (\<open>m_uuid\<close>) and
  \<^verbatim>\<open>dump_to_simple_view(skip=get_resource_ignore_fields())\<close> (\<open>m_view\<close>).
\<close>

record model =
  m_uuid :: uuid
  m_view :: pydict

text \<open>What a backend client hands back: the three cases of the driver's \<^verbatim>\<open>isinstance\<close> tests.\<close>

datatype backend_item =
    TypedResource resource
  | RawMapping pydict
  | OpaqueModel model

text \<open>
  Modelled from the spec: \<^verbatim>\<open>Resource.from_value(value, kind, target_fields)\<close> is not under
  src/. It builds a resource of the given kind, value and target fields whose identity is
  the \<^verbatim>\<open>uuid\<close> entry of the value (section 4.3: the value carries the resource's own
  identity); a value without the entry raises \<^verbatim>\<open>KeyError\<close>.
\<close>

definition from_value ::
  "(string \<Rightarrow> exn + uuid) \<Rightarrow> pydict \<Rightarrow> string \<Rightarrow> string set \<Rightarrow> exn + resource" where
  "from_value UUID v k target_fields =
     (case map_of v ''uuid'' of
        None \<Rightarrow> Inl (KeyError ''uuid'')
      | Some j \<Rightarrow>
          (case make_uuid UUID j of
             Inl e \<Rightarrow> Inl e
           | Inr u \<Rightarrow> Inr \<lparr>r_uuid = u, r_kind = k, r_value = v, r_target_fields = target_fields\<rparr>))"

text \<open>
  Modelled from the spec: \<^verbatim>\<open>Resource.replace_value(value, target_fields)\<close> is not under
  src/. It gives the same resource with the new value and target fields (section 4.5: a
  materialized resource built from the response and the computed target_fields).
\<close>

definition replace_value :: "resource \<Rightarrow> pydict \<Rightarrow> string set \<Rightarrow> resource" where
  "replace_value r v target_fields = r\<lparr>r_value := v, r_target_fields := target_fields\<rparr>"

section \<open>The resource transformer: \<^verbatim>\<open>drivers/direct.py\<close>\<close>

record transformer =
  ignore_null_attributes :: bool
  attributes :: "string list option"

definition transform :: "transformer \<Rightarrow> pydict \<Rightarrow> pydict" where
  "transform t view =
     (if \<not> ignore_null_attributes t then view
      else case attributes t of
             None \<Rightarrow> filter (\<lambda>(k, v). v \<noteq> JNull) view
           | Some a \<Rightarrow> filter (\<lambda>(k, v). \<not> (v = JNull \<and> k \<in> set a)) view)"

section \<open>The target field store\<close>

text \<open>
  The store as the list of its entries, keyed by (kind, uuid); \<open>map_of\<close> reads it.
\<close>

type_synonym tf_storage = "((string \<times> uuid) \<times> string set) list"

definition tf_key :: "target_field_item \<Rightarrow> string \<times> uuid" where
  "tf_key item = (tf_kind item, tf_uuid item)"

text \<open>
  Modelled from the spec: \<^verbatim>\<open>storage.base.AbstractTargetFieldsStorage\<close> and its
  implementations are not under src/. Section 4.2: \<^verbatim>\<open>get\<close> fails with ItemNotFound if the
  entry is absent.
\<close>

definition storage_get :: "tf_storage \<Rightarrow> string \<Rightarrow> uuid \<Rightarrow> exn + target_field_item" where
  "storage_get st k u =
     (case map_of st (k, u) of
        None \<Rightarrow> Inl StorageItemNotFound
      | Some fs \<Rightarrow> Inr \<lparr>tf_kind = k, tf_uuid = u, tf_fields = fs\<rparr>)"

text \<open>
  Modelled from the spec: section 4.2, \<^verbatim>\<open>create(item, force)\<close>: force=true overwrites
  unconditionally; force=false fails with ItemAlreadyExists if present.
\<close>

definition storage_create :: "tf_storage \<Rightarrow> target_field_item \<Rightarrow> bool \<Rightarrow> exn + tf_storage" where
  "storage_create st item force =
     (if \<not> force \<and> map_of st (tf_key item) \<noteq> None then Inl StorageItemAlreadyExists
      else Inr (AList.update (tf_key item) (tf_fields item) st))"

text \<open>
  Modelled from the spec: section 4.2, \<^verbatim>\<open>update\<close> fails if absent; the failure is the
  store's ItemNotFound, the only not-found error of the local-store level (section 7).
\<close>

definition storage_update :: "tf_storage \<Rightarrow> target_field_item \<Rightarrow> exn + tf_storage" where
  "storage_update st item =
     (if map_of st (tf_key item) = None then Inl StorageItemNotFound
      else Inr (AList.update (tf_key item) (tf_fields item) st))"

text \<open>
  Modelled from the spec: section 4.2, \<^verbatim>\<open>delete(item, force)\<close>: force=true never fails even
  if absent; without force an absent entry is the store's ItemNotFound.
\<close>

definition storage_delete :: "tf_storage \<Rightarrow> target_field_item \<Rightarrow> bool \<Rightarrow> exn + tf_storage" where
  "storage_delete st item force =
     (if \<not> force \<and> map_of st (tf_key item) = None then Inl StorageItemNotFound
      else Inr (AList.delete (tf_key item) st))"

text \<open>
  Modelled from the spec: section 4.2, \<^verbatim>\<open>list(kind)\<close> returns all entries of the kind, one
  for each key that \<open>map_of\<close> finds.
\<close>

definition storage_list :: "tf_storage \<Rightarrow> string \<Rightarrow> target_field_item list" where
  "storage_list st k =
     map (\<lambda>((k', u), fs). \<lparr>tf_kind = k', tf_uuid = u, tf_fields = fs\<rparr>)
         (filter (\<lambda>((k', u), fs). k' = k) (AList.clearjunk st))"

definition stored_uuids :: "tf_storage \<Rightarrow> string \<Rightarrow> uuid set" where
  "stored_uuids st k = {u. map_of st (k, u) \<noteq> None}"


section \<open>The backend client interface and the driver's world\<close>

text \<open>
  \<^verbatim>\<open>AbstractBackendClient\<close>: each operation takes the backend's state \<open>'b\<close> and gives back
  what it returns or raises, and the new state. \<open>c_create\<close> also gives back the caller's
  resource, which an implementation may change in place (the REST client does).
\<close>

record 'b client =
  c_get :: "'b \<Rightarrow> resource \<Rightarrow> (exn + backend_item) \<times> 'b"
  c_list :: "'b \<Rightarrow> string \<Rightarrow> (exn + backend_item list) \<times> 'b"
  c_create :: "'b \<Rightarrow> resource \<Rightarrow> (exn + backend_item) \<times> resource \<times> 'b"
  c_update :: "'b \<Rightarrow> resource \<Rightarrow> (exn + backend_item) \<times> 'b"
  c_delete :: "'b \<Rightarrow> resource \<Rightarrow> (exn + unit) \<times> 'b"

text \<open>
  The attributes of a \<^verbatim>\<open>DirectAgentDriver\<close> that never change: its client, its transformer
  map and what \<^verbatim>\<open>get_capabilities()\<close> of the base class returns.
\<close>

record 'b driver =
  d_client :: "'b client"
  d_transformer_map :: "string \<rightharpoonup> transformer"
  d_capabilities :: "string set"

text \<open>Every call that the driver makes to the store or to the client, in order.\<close>

datatype event =
    StorageGet string uuid
  | StorageList string
  | StorageCreate target_field_item bool
  | StorageUpdate target_field_item
  | StorageDelete target_field_item bool
  | ClientGet resource
  | ClientList string
  | ClientCreate resource
  | ClientUpdate resource
  | ClientDelete resource

text \<open>What the driver's operations read and change: the store, the backend, the call log.\<close>

record 'b world =
  w_storage :: tf_storage
  w_backend :: 'b
  w_trace :: "event list"

definition log_call :: "event \<Rightarrow> 'b world \<Rightarrow> 'b world" where
  "log_call ev w = w\<lparr>w_trace := w_trace w @ [ev]\<rparr>"

section \<open>The reconciliation driver: \<^verbatim>\<open>DirectAgentDriver\<close>\<close>

definition apply_transformer :: "'b driver \<Rightarrow> string \<Rightarrow> pydict \<Rightarrow> pydict" where
  "apply_transformer d k v =
     (case d_transformer_map d k of None \<Rightarrow> v | Some t \<Rightarrow> transform t v)"

definition model_to_resource ::
  "(string \<Rightarrow> exn + uuid) \<Rightarrow> 'b driver \<Rightarrow> string \<Rightarrow> model \<Rightarrow> string set \<Rightarrow> exn + resource" where
  "model_to_resource UUID d k mo target_fields =
     from_value UUID (apply_transformer d k (m_view mo)) k target_fields"

definition prepare_res_response ::
  "(string \<Rightarrow> exn + uuid) \<Rightarrow> 'b driver \<Rightarrow> resource \<Rightarrow> backend_item \<Rightarrow> string set
     \<Rightarrow> exn + resource" where
  "prepare_res_response UUID d origin_resource v target_fields =
     (case v of
        TypedResource r \<Rightarrow> Inr r
      | RawMapping m \<Rightarrow>
          Inr (replace_value origin_resource
                 (apply_transformer d (r_kind origin_resource) m) target_fields)
      | OpaqueModel mo \<Rightarrow>
          model_to_resource UUID d (r_kind origin_resource) mo target_fields)"

definition unsupported_capability :: "string \<Rightarrow> exn" where
  "unsupported_capability k = TypeError (''Unsupported capability '' @ k)"

definition validate :: "'b driver \<Rightarrow> resource \<Rightarrow> exn + unit" where
  "validate d r =
     (if r_kind r \<notin> d_capabilities d then Inl (unsupported_capability (r_kind r))
      else Inr ())"

text \<open>
  \<^verbatim>\<open>get\<close>: the store is read first, then the client; the one handler around both turns
  the client's ResourceNotFound and the store's ItemNotFound into the driver's
  ResourceNotFound, and lets everything else pass.
\<close>

definition get_handler :: "exn \<Rightarrow> exn" where
  "get_handler e =
     (if e = ClientResourceNotFound \<or> e = StorageItemNotFound then DriverResourceNotFound
      else e)"

definition driver_get ::
  "(string \<Rightarrow> exn + uuid) \<Rightarrow> 'b driver \<Rightarrow> 'b world \<Rightarrow> resource
     \<Rightarrow> (exn + resource) \<times> 'b world" where
  "driver_get UUID d w r =
     (case validate d r of
        Inl e \<Rightarrow> (Inl e, w)
      | Inr _ \<Rightarrow>
          (let w1 = log_call (StorageGet (r_kind r) (r_uuid r)) w in
           case storage_get (w_storage w1) (r_kind r) (r_uuid r) of
             Inl e \<Rightarrow> (Inl (get_handler e), w1)
           | Inr target_fields \<Rightarrow>
               (case c_get (d_client d) (w_backend w1) r of
                  (res, b) \<Rightarrow>
                    (let w2 = log_call (ClientGet r) (w1\<lparr>w_backend := b\<rparr>) in
                     case res of
                       Inl e \<Rightarrow> (Inl (get_handler e), w2)
                     | Inr v \<Rightarrow>
                         (prepare_res_response UUID d r v (tf_fields target_fields), w2)))))"

text \<open>
  A dict comprehension: a later item with the same key replaces the earlier one.
\<close>

definition dict_of :: "('k \<times> 'v) list \<Rightarrow> ('k \<times> 'v) list" where
  "dict_of kvs = fold (\<lambda>(k, v). AList.update k v) kvs []"

definition item_uuid :: "(string \<Rightarrow> exn + uuid) \<Rightarrow> backend_item \<Rightarrow> exn + uuid" where
  "item_uuid UUID i =
     (case i of
        TypedResource r \<Rightarrow> Inr (r_uuid r)
      | RawMapping m \<Rightarrow>
          (case map_of m ''uuid'' of
             None \<Rightarrow> Inl (KeyError ''uuid'')
           | Some j \<Rightarrow> make_uuid UUID j)
      | OpaqueModel mo \<Rightarrow> Inr (m_uuid mo))"

text \<open>
  The loop of \<^verbatim>\<open>list\<close> over the client's items; \<open>client_resources\<close> is the dict it fills.
  A typed resource is stored as it is. A raw mapping or a model is stored only when the
  store has an item for its uuid (an item, a tuple of three fields, is always true), with
  the target fields of that item; otherwise a warning is logged and the item is skipped.
\<close>

fun collect_client_items ::
  "(string \<Rightarrow> exn + uuid) \<Rightarrow> 'b driver \<Rightarrow> string \<Rightarrow> (uuid \<times> target_field_item) list
     \<Rightarrow> backend_item list \<Rightarrow> (uuid \<times> resource) list \<Rightarrow> exn + (uuid \<times> resource) list" where
  "collect_client_items UUID d capability storage_items [] client_resources =
     Inr client_resources"
| "collect_client_items UUID d capability storage_items (i # items) client_resources =
     (case i of
        TypedResource r \<Rightarrow>
          collect_client_items UUID d capability storage_items items
            (AList.update (r_uuid r) r client_resources)
      | RawMapping m \<Rightarrow>
          (case item_uuid UUID i of
             Inl e \<Rightarrow> Inl e
           | Inr u \<Rightarrow>
               (case map_of storage_items u of
                  Some storage_item \<Rightarrow>
                    (case from_value UUID (apply_transformer d capability m) capability
                            (tf_fields storage_item) of
                       Inl e \<Rightarrow> Inl e
                     | Inr r \<Rightarrow>
                         collect_client_items UUID d capability storage_items items
                           (AList.update u r client_resources))
                | None \<Rightarrow>
                    collect_client_items UUID d capability storage_items items
                      client_resources))
      | OpaqueModel mo \<Rightarrow>
          (case map_of storage_items (m_uuid mo) of
             Some storage_item \<Rightarrow>
               (case model_to_resource UUID d capability mo (tf_fields storage_item) of
                  Inl e \<Rightarrow> Inl e
                | Inr r \<Rightarrow>
                    collect_client_items UUID d capability storage_items items
                      (AList.update (m_uuid mo) r client_resources))
           | None \<Rightarrow>
               collect_client_items UUID d capability storage_items items client_resources))"

text \<open>
  \<^verbatim>\<open>list\<close>. The result walks the intersection of the two key sets, a Python set whose
  order carries no meaning; the model lists it in the order of \<open>client_resources\<close>.
\<close>

definition driver_list ::
  "(string \<Rightarrow> exn + uuid) \<Rightarrow> 'b driver \<Rightarrow> 'b world \<Rightarrow> string
     \<Rightarrow> (exn + resource list) \<times> 'b world" where
  "driver_list UUID d w capability =
     (if capability \<notin> d_capabilities d then (Inl (unsupported_capability capability), w)
      else
        (let w1 = log_call (StorageList capability) w;
             storage_items =
               dict_of (map (\<lambda>i. (tf_uuid i, i)) (storage_list (w_storage w1) capability))
         in case c_list (d_client d) (w_backend w1) capability of
              (res, b) \<Rightarrow>
                (let w2 = log_call (ClientList capability) (w1\<lparr>w_backend := b\<rparr>) in
                 case res of
                   Inl e \<Rightarrow> (Inl e, w2)
                 | Inr items \<Rightarrow>
                     (case collect_client_items UUID d capability storage_items items [] of
                        Inl e \<Rightarrow> (Inl e, w2)
                      | Inr client_resources \<Rightarrow>
                          (Inr (map snd
                                  (filter (\<lambda>(u, r). u \<in> set (map fst storage_items))
                                     client_resources)),
                           w2)))))"

text \<open>The uuids that the client's listing reports.\<close>

definition backend_uuids :: "(string \<Rightarrow> exn + uuid) \<Rightarrow> backend_item list \<Rightarrow> uuid set" where
  "backend_uuids UUID items = {u. \<exists>i\<in>set items. item_uuid UUID i = Inr u}"

text \<open>
  An opaque model is consistent when the resource built from its view has the uuid that
  \<^verbatim>\<open>get_resource_uuid()\<close> gives.
\<close>

definition model_consistent ::
  "(string \<Rightarrow> exn + uuid) \<Rightarrow> 'b driver \<Rightarrow> string \<Rightarrow> backend_item \<Rightarrow> bool" where
  "model_consistent UUID d capability i =
     (case i of
        OpaqueModel mo \<Rightarrow>
          (case model_to_resource UUID d capability mo {} of
             Inl e \<Rightarrow> True
           | Inr r \<Rightarrow> r_uuid r = m_uuid mo)
      | _ \<Rightarrow> True)"

text \<open>
  \<^verbatim>\<open>create\<close>: the target fields are the keys of the inbound value; the item goes to the
  store with force before the client is called. Only the client's ResourceAlreadyExists
  is translated. The second component is the caller's resource after the call.
\<close>

definition driver_create ::
  "(string \<Rightarrow> exn + uuid) \<Rightarrow> 'b driver \<Rightarrow> 'b world \<Rightarrow> resource
     \<Rightarrow> (exn + resource) \<times> resource \<times> 'b world" where
  "driver_create UUID d w r =
     (case validate d r of
        Inl e \<Rightarrow> (Inl e, r, w)
      | Inr _ \<Rightarrow>
          (let target_fields = set (map fst (r_value r));
               storage_item =
                 \<lparr>tf_kind = r_kind r, tf_uuid = r_uuid r, tf_fields = target_fields\<rparr>;
               w1 = log_call (StorageCreate storage_item True) w
           in case storage_create (w_storage w1) storage_item True of
                Inl e \<Rightarrow> (Inl e, r, w1)
              | Inr st \<Rightarrow>
                  (case c_create (d_client d) (w_backend w1) r of
                     (res, r', b) \<Rightarrow>
                       (let w2 = log_call (ClientCreate r)
                                   (w1\<lparr>w_storage := st, w_backend := b\<rparr>) in
                        case res of
                          Inl e \<Rightarrow>
                            (Inl (if e = ClientResourceAlreadyExists
                                  then DriverResourceAlreadyExists else e), r', w2)
                        | Inr resp \<Rightarrow>
                            (prepare_res_response UUID d r' resp target_fields, r', w2)))))"

text \<open>
  \<^verbatim>\<open>update\<close>: the client is called first, the store inside the same \<^verbatim>\<open>try\<close> after it; the
  handler catches the client's ResourceNotFound only.
\<close>

definition update_handler :: "exn \<Rightarrow> exn" where
  "update_handler e = (if e = ClientResourceNotFound then DriverResourceNotFound else e)"

definition driver_update ::
  "(string \<Rightarrow> exn + uuid) \<Rightarrow> 'b driver \<Rightarrow> 'b world \<Rightarrow> resource
     \<Rightarrow> (exn + resource) \<times> 'b world" where
  "driver_update UUID d w r =
     (case validate d r of
        Inl e \<Rightarrow> (Inl e, w)
      | Inr _ \<Rightarrow>
          (let target_fields = set (map fst (r_value r));
               storage_item =
                 \<lparr>tf_kind = r_kind r, tf_uuid = r_uuid r, tf_fields = target_fields\<rparr>
           in case c_update (d_client d) (w_backend w) r of
                (res, b) \<Rightarrow>
                  (let w1 = log_call (ClientUpdate r) (w\<lparr>w_backend := b\<rparr>) in
                   case res of
                     Inl e \<Rightarrow> (Inl (update_handler e), w1)
                   | Inr resp \<Rightarrow>
                       (let w2 = log_call (StorageUpdate storage_item) w1 in
                        case storage_update (w_storage w2) storage_item of
                          Inl e \<Rightarrow> (Inl (update_handler e), w2)
                        | Inr st \<Rightarrow>
                            (prepare_res_response UUID d r resp target_fields,
                             w2\<lparr>w_storage := st\<rparr>)))))"

text \<open>
  \<^verbatim>\<open>delete\<close>: the client's ResourceNotFound is logged and dropped; any other exception of
  the client leaves the method. After the \<^verbatim>\<open>try\<close> the item is deleted from the store with
  force.
\<close>

definition driver_delete ::
  "'b driver \<Rightarrow> 'b world \<Rightarrow> resource \<Rightarrow> (exn + unit) \<times> 'b world" where
  "driver_delete d w r =
     (case validate d r of
        Inl e \<Rightarrow> (Inl e, w)
      | Inr _ \<Rightarrow>
          (case c_delete (d_client d) (w_backend w) r of
             (res, b) \<Rightarrow>
               (let w1 = log_call (ClientDelete r) (w\<lparr>w_backend := b\<rparr>) in
                if res \<noteq> Inr () \<and> res \<noteq> Inl ClientResourceNotFound
                then (res, w1)
                else
                  (let storage_item =
                         \<lparr>tf_kind = r_kind r, tf_uuid = r_uuid r, tf_fields = {}\<rparr>;
                       w2 = log_call (StorageDelete storage_item True) w1
                   in case storage_delete (w_storage w2) storage_item True of
                        Inl e \<Rightarrow> (Inl e, w2)
                      | Inr st \<Rightarrow> (Inr (), w2\<lparr>w_storage := st\<rparr>)))))"


section \<open>The REST backend client: \<^verbatim>\<open>clients/backend/rest.py\<close>\<close>

text \<open>
  The client changes a dict that its caller holds, so dicts are objects here: the heap
  is the list of the allocated dicts, an address is an index into it, and a resource
  refers to its value by address.
\<close>

type_synonym addr = nat
type_synonym heap = "pydict list"

record resource_ref =
  rr_uuid :: uuid
  rr_kind :: string
  rr_value :: addr

text \<open>
  \<^verbatim>\<open>http.CollectionBaseClient\<close> is not under src/: its five methods are parameters, each
  over the remote side's state \<open>'h\<close>, returning a result or a \<^verbatim>\<open>bazooka\<close> exception.
\<close>

record 'h http_client =
  http_get :: "'h \<Rightarrow> string \<Rightarrow> uuid \<Rightarrow> (exn + pydict) \<times> 'h"
  http_create :: "'h \<Rightarrow> string \<Rightarrow> pydict \<Rightarrow> (exn + pydict) \<times> 'h"
  http_update :: "'h \<Rightarrow> string \<Rightarrow> uuid \<Rightarrow> pydict \<Rightarrow> (exn + pydict) \<times> 'h"
  http_filter :: "'h \<Rightarrow> string \<Rightarrow> string \<Rightarrow> (exn + pydict list) \<times> 'h"
  http_delete :: "'h \<Rightarrow> string \<Rightarrow> uuid \<Rightarrow> (exn + unit) \<times> 'h"

record 'h rest_client =
  rc_client :: "'h http_client"
  rc_collection_map :: "string \<rightharpoonup> string"
  rc_project_id :: string

text \<open>The requests sent so far, each with the body it carried when it was sent.\<close>

datatype http_request =
    HttpGet string uuid
  | HttpCreate string pydict
  | HttpUpdate string uuid pydict
  | HttpFilter string string
  | HttpDelete string uuid

record 'h remote =
  rm_http :: 'h
  rm_requests :: "http_request list"

definition sent :: "http_request \<Rightarrow> 'h \<Rightarrow> 'h remote \<Rightarrow> 'h remote" where
  "sent req h rm = \<lparr>rm_http = h, rm_requests = rm_requests rm @ [req]\<rparr>"

text \<open>
  Python's truth value. An object is true by default; a float is false when it is zero;
  a dict with a key and a container that holds a reference are not empty.
\<close>

fun truthy :: "json \<Rightarrow> bool" where
  "truthy JNull = False"
| "truthy (JBool b) = b"
| "truthy (JInt i) = (i \<noteq> 0)"
| "truthy (JFloat f) = (f \<noteq> FFinite ''0.0'' \<and> f \<noteq> FFinite ''-0.0'')"
| "truthy (JStr s) = (s \<noteq> [])"
| "truthy (JList xs) = (xs \<noteq> [])"
| "truthy (JDict kvs) = (kvs \<noteq> [])"
| "truthy (JDictBadKey t) = True"
| "truthy (JObject t) = True"
| "truthy JCircular = True"

definition dict_get :: "pydict \<Rightarrow> string \<Rightarrow> json \<Rightarrow> json" where
  "dict_get m k dflt = (case map_of m k of None \<Rightarrow> dflt | Some v \<Rightarrow> v)"

definition rest_get ::
  "'h rest_client \<Rightarrow> 'h remote \<Rightarrow> resource_ref \<Rightarrow> (exn + pydict) \<times> 'h remote" where
  "rest_get rc rm r =
     (case rc_collection_map rc (rr_kind r) of
        None \<Rightarrow> (Inl (KeyError (rr_kind r)), rm)
      | Some collection_url \<Rightarrow>
          (case http_get (rc_client rc) (rm_http rm) collection_url (rr_uuid r) of
             (res, h) \<Rightarrow>
               ((case res of
                   Inl e \<Rightarrow> Inl (if e = BazookaNotFoundError then ClientResourceNotFound else e)
                 | Inr v \<Rightarrow> Inr v),
                sent (HttpGet collection_url (rr_uuid r)) h rm)))"

text \<open>
  \<^verbatim>\<open>create\<close> looks the collection up, writes \<^verbatim>\<open>resource.value["uuid"]\<close> into the caller's
  dict, checks the project and only then sends that dict.
\<close>

definition rest_create ::
  "'h rest_client \<Rightarrow> heap \<Rightarrow> 'h remote \<Rightarrow> resource_ref
     \<Rightarrow> (exn + pydict) \<times> heap \<times> 'h remote" where
  "rest_create rc hp rm r =
     (case rc_collection_map rc (rr_kind r) of
        None \<Rightarrow> (Inl (KeyError (rr_kind r)), hp, rm)
      | Some collection_url \<Rightarrow>
          (let hp1 = hp[rr_value r :=
                         AList.update ''uuid'' (JStr (rr_uuid r)) (hp ! rr_value r)];
               res_project_id = dict_get (hp1 ! rr_value r) ''project_id'' JNull
           in if truthy res_project_id \<and> res_project_id \<noteq> JStr (rc_project_id rc)
              then (Inl ClientResourceProjectMismatch, hp1, rm)
              else
                (case http_create (rc_client rc) (rm_http rm) collection_url
                        (hp1 ! rr_value r) of
                   (res, h) \<Rightarrow>
                     ((case res of
                         Inl e \<Rightarrow>
                           Inl (if e = BazookaConflictError then ClientResourceAlreadyExists
                                else e)
                       | Inr v \<Rightarrow> Inr v),
                      hp1,
                      sent (HttpCreate collection_url (hp1 ! rr_value r)) h rm))))"

text \<open>
  \<^verbatim>\<open>update\<close> allocates a copy of the caller's dict, pops the four read-only keys from the
  copy and sends the copy.
\<close>

definition rest_update ::
  "'h rest_client \<Rightarrow> heap \<Rightarrow> 'h remote \<Rightarrow> resource_ref
     \<Rightarrow> (exn + pydict) \<times> heap \<times> 'h remote" where
  "rest_update rc hp rm r =
     (case rc_collection_map rc (rr_kind r) of
        None \<Rightarrow> (Inl (KeyError (rr_kind r)), hp, rm)
      | Some collection_url \<Rightarrow>
          (let v = length hp;
               hp1 = hp @ [hp ! rr_value r];
               hp2 = hp1[v := AList.delete ''created_at'' (hp1 ! v)];
               hp3 = hp2[v := AList.delete ''updated_at'' (hp2 ! v)];
               hp4 = hp3[v := AList.delete ''project_id'' (hp3 ! v)];
               hp5 = hp4[v := AList.delete ''uuid'' (hp4 ! v)]
           in case http_update (rc_client rc) (rm_http rm) collection_url (rr_uuid r)
                     (hp5 ! v) of
                (res, h) \<Rightarrow>
                  ((case res of
                      Inl e \<Rightarrow> Inl (if e = BazookaNotFoundError then ClientResourceNotFound else e)
                    | Inr resp \<Rightarrow> Inr resp),
                   hp5,
                   sent (HttpUpdate collection_url (rr_uuid r) (hp5 ! v)) h rm)))"

definition rest_list ::
  "'h rest_client \<Rightarrow> 'h remote \<Rightarrow> string \<Rightarrow> (exn + pydict list) \<times> 'h remote" where
  "rest_list rc rm k =
     (case rc_collection_map rc k of
        None \<Rightarrow> (Inl (KeyError k), rm)
      | Some collection_url \<Rightarrow>
          (case http_filter (rc_client rc) (rm_http rm) collection_url (rc_project_id rc) of
             (res, h) \<Rightarrow> (res, sent (HttpFilter collection_url (rc_project_id rc)) h rm)))"

definition rest_delete ::
  "'h rest_client \<Rightarrow> 'h remote \<Rightarrow> resource_ref \<Rightarrow> (exn + unit) \<times> 'h remote" where
  "rest_delete rc rm r =
     (case rc_collection_map rc (rr_kind r) of
        None \<Rightarrow> (Inl (KeyError (rr_kind r)), rm)
      | Some collection_url \<Rightarrow>
          (case http_delete (rc_client rc) (rm_http rm) collection_url (rr_uuid r) of
             (res, h) \<Rightarrow>
               ((case res of
                   Inl e \<Rightarrow> Inl (if e = BazookaNotFoundError then ClientResourceNotFound else e)
                 | Inr u \<Rightarrow> Inr u),
                sent (HttpDelete collection_url (rr_uuid r)) h rm)))"

subsection \<open>The REST client as the driver's backend client\<close>

text \<open>
  The driver hands its resource to the client; the client sees the resource's value as
  the one dict of a heap, and the driver reads it back after \<^verbatim>\<open>create\<close>.
\<close>

definition ref_of :: "resource \<Rightarrow> resource_ref" where
  "ref_of r = \<lparr>rr_uuid = r_uuid r, rr_kind = r_kind r, rr_value = 0\<rparr>"

definition lift_result :: "(exn + pydict) \<Rightarrow> exn + backend_item" where
  "lift_result res = (case res of Inl e \<Rightarrow> Inl e | Inr v \<Rightarrow> Inr (RawMapping v))"

definition rest_backend :: "'h rest_client \<Rightarrow> 'h remote client" where
  "rest_backend rc =
     \<lparr>c_get = (\<lambda>rm r. case rest_get rc rm (ref_of r) of (res, rm') \<Rightarrow> (lift_result res, rm')),
      c_list = (\<lambda>rm k. case rest_list rc rm k of
                  (res, rm') \<Rightarrow>
                    ((case res of Inl e \<Rightarrow> Inl e | Inr vs \<Rightarrow> Inr (map RawMapping vs)), rm')),
      c_create = (\<lambda>rm r. case rest_create rc [r_value r] rm (ref_of r) of
                    (res, hp, rm') \<Rightarrow> (lift_result res, r\<lparr>r_value := hp ! 0\<rparr>, rm')),
      c_update = (\<lambda>rm r. case rest_update rc [r_value r] rm (ref_of r) of
                    (res, hp, rm') \<Rightarrow> (lift_result res, rm')),
      c_delete = (\<lambda>rm r. rest_delete rc rm (ref_of r))\<rparr>"

subsection \<open>A remote collection held in memory\<close>

text \<open>
  A remote side to run the client against: the stored bodies of one project by
  collection and uuid. A create of a uuid that is there answers with a conflict, and get,
  update and delete of one that is not there answer not found.
\<close>

type_synonym collections = "((string \<times> uuid) \<times> pydict) list"

definition body_uuid :: "pydict \<Rightarrow> uuid" where
  "body_uuid v = (case map_of v ''uuid'' of Some (JStr u) \<Rightarrow> u | _ \<Rightarrow> [])"

definition memory_http :: "collections http_client" where
  "memory_http =
     \<lparr>http_get = (\<lambda>h url u. case map_of h (url, u) of
                     None \<Rightarrow> (Inl BazookaNotFoundError, h)
                   | Some v \<Rightarrow> (Inr v, h)),
      http_create = (\<lambda>h url v.
                     if map_of h (url, body_uuid v) \<noteq> None then (Inl BazookaConflictError, h)
                     else (Inr v, AList.update (url, body_uuid v) v h)),
      http_update = (\<lambda>h url u v. case map_of h (url, u) of
                     None \<Rightarrow> (Inl BazookaNotFoundError, h)
                   | Some old \<Rightarrow>
                       (let new = fold (\<lambda>(k, x). AList.update k x) v old
                        in (Inr new, AList.update (url, u) new h))),
      http_filter = (\<lambda>h url project_id.
                     (Inr (map snd (filter (\<lambda>((c, u), v). c = url) (AList.clearjunk h))), h)),
      http_delete = (\<lambda>h url u. case map_of h (url, u) of
                     None \<Rightarrow> (Inl BazookaNotFoundError, h)
                   | Some v \<Rightarrow> (Inr (), AList.delete (url, u) h))\<rparr>"

section \<open>Dependency tracking: \<^verbatim>\<open>migrations/0004-ua-resources-relations-e9a811.py\<close>\<close>

text \<open>
  A row of \<^verbatim>\<open>ua_tracked_resources\<close>, column by column; \<^verbatim>\<open>watcher\<close> and \<^verbatim>\<open>target\<close> may be
  NULL, the other columns are NOT NULL. Timestamps are numbers.
\<close>

record tracked_resource =
  tr_uuid :: uuid
  tr_watcher :: "uuid option"
  tr_target :: "uuid option"
  tr_watcher_kind :: string
  tr_target_kind :: string
  tr_hash :: string
  tr_full_hash :: string
  tr_created_at :: nat
  tr_updated_at :: nat

text \<open>
  The columns of \<^verbatim>\<open>ua_target_resources\<close> and \<^verbatim>\<open>ua_actual_resources\<close> that the view reads.
  \<^verbatim>\<open>res_uuid\<close> comes from a migration that is not under src/ and is taken as nullable.
\<close>

record target_row =
  tg_uuid :: uuid
  tg_res_uuid :: "uuid option"
  tg_full_hash :: string

record actual_row =
  ar_uuid :: uuid
  ar_res_uuid :: "uuid option"

record outdated_row =
  o_uuid :: uuid
  o_tracked_resource :: uuid
  o_watcher_kind :: string
  o_full_hash :: string
  o_actual_full_hash :: string
  o_actual_resource :: "uuid option"

text \<open>SQL's \<^verbatim>\<open>=\<close> in a join condition: never true when a side is NULL.\<close>

definition sql_eq :: "uuid option \<Rightarrow> uuid option \<Rightarrow> bool" where
  "sql_eq a b = (a \<noteq> None \<and> b \<noteq> None \<and> a = b)"

definition outdated_row_of :: "tracked_resource \<Rightarrow> target_row \<Rightarrow> uuid option \<Rightarrow> outdated_row" where
  "outdated_row_of tracked utr uar =
     \<lparr>o_uuid = tr_uuid tracked, o_tracked_resource = tr_uuid tracked,
      o_watcher_kind = tr_watcher_kind tracked, o_full_hash = tr_full_hash tracked,
      o_actual_full_hash = tg_full_hash utr, o_actual_resource = uar\<rparr>"

text \<open>
  The LEFT JOIN: one row for each actual resource of the target, or one row with NULL
  when there is none.
\<close>

definition left_join_actual :: "actual_row list \<Rightarrow> tracked_resource \<Rightarrow> uuid option list" where
  "left_join_actual actuals tracked =
     (let ms = filter (\<lambda>uar. sql_eq (tr_target tracked) (ar_res_uuid uar)) actuals
      in if ms = [] then [None] else map (\<lambda>uar. Some (ar_uuid uar)) ms)"

text \<open>
  \<^verbatim>\<open>ua_outdated_tracked_full_hash_instances_view\<close>: tracked JOIN target ON
  \<^verbatim>\<open>tracked.target = utr.res_uuid\<close> LEFT JOIN actual, WHERE
  \<^verbatim>\<open>tracked.full_hash != utr.full_hash\<close>. A view is evaluated on the tables as they are
  when it is read.
\<close>

definition outdated_tracked_full_hash_instances_view ::
  "tracked_resource list \<Rightarrow> target_row list \<Rightarrow> actual_row list \<Rightarrow> outdated_row list" where
  "outdated_tracked_full_hash_instances_view trackeds targets actuals =
     concat (map (\<lambda>tracked.
       concat (map (\<lambda>utr.
         if sql_eq (tr_target tracked) (tg_res_uuid utr)
            \<and> tr_full_hash tracked \<noteq> tg_full_hash utr
         then map (outdated_row_of tracked utr) (left_join_actual actuals tracked)
         else []) targets)) trackeds)"

definition reported_stale ::
  "tracked_resource list \<Rightarrow> target_row list \<Rightarrow> actual_row list \<Rightarrow> tracked_resource \<Rightarrow> bool" where
  "reported_stale trackeds targets actuals t =
     (\<exists>row\<in>set (outdated_tracked_full_hash_instances_view trackeds targets actuals).
        o_uuid row = tr_uuid t)"

section \<open>The delta payload protocol\<close>

record payload_response =
  pr_capabilities :: json
  pr_facts :: json
  pr_hash :: string

text \<open>
  Modelled from the spec: the \<^verbatim>\<open>get_payload\<close> action of the orchestrator API is not under
  src/ (only its functional test is). Section 4.7: the controller assembles
  \<^verbatim>\<open>{capabilities: ..., facts: ...}\<close> and hashes the assembled payload; if the agent-supplied
  hash matches the freshly computed one the response is
  \<^verbatim>\<open>{capabilities: {}, facts: {}, hash: <same>}\<close>, otherwise it carries the full payload and
  the new hash. The schema version has no effect on the payload (section 9).
\<close>

definition get_payload ::
  "(string \<Rightarrow> string) \<Rightarrow> json \<Rightarrow> json \<Rightarrow> int \<Rightarrow> string \<Rightarrow> exn + payload_response" where
  "get_payload hash_method capabilities facts version last_known_hash =
     (case calculate_hash hash_method
             (JDict [(''capabilities'', capabilities), (''facts'', facts)]) of
        Inl e \<Rightarrow> Inl e
      | Inr h \<Rightarrow>
          (if last_known_hash = h
           then Inr \<lparr>pr_capabilities = JDict [], pr_facts = JDict [], pr_hash = h\<rparr>
           else Inr \<lparr>pr_capabilities = capabilities, pr_facts = facts, pr_hash = h\<rparr>))"


section \<open>A driver over the REST client, to run the operations on\<close>

text \<open>
  One capability, \<^verbatim>\<open>node\<close>, with its collection; the project \<^verbatim>\<open>p1\<close>; a constructor that
  takes every non-empty string for a uuid.
\<close>

definition example_UUID :: "string \<Rightarrow> exn + uuid" where
  "example_UUID s =
     (if s = [] then Inl (ValueError ''badly formed hexadecimal UUID string'') else Inr s)"

definition example_rest :: "collections rest_client" where
  "example_rest =
     \<lparr>rc_client = memory_http,
      rc_collection_map = [''node'' \<mapsto> ''/v1/nodes/''],
      rc_project_id = ''p1''\<rparr>"

definition example_driver :: "collections remote driver" where
  "example_driver =
     \<lparr>d_client = rest_backend example_rest,
      d_transformer_map = Map.empty,
      d_capabilities = {''node''}\<rparr>"

definition example_resource :: resource where
  "example_resource =
     \<lparr>r_uuid = ''u1'', r_kind = ''node'',
      r_value = [(''name'', JStr ''n1''), (''cores'', JInt 2)],
      r_target_fields = {''name'', ''cores''}\<rparr>"

text \<open>Remote sides: an empty one, and one that holds the node \<^verbatim>\<open>u1\<close>.\<close>

definition empty_remote :: "collections remote" where
  "empty_remote = \<lparr>rm_http = [], rm_requests = []\<rparr>"

definition remote_with_u1 :: "collections remote" where
  "remote_with_u1 =
     \<lparr>rm_http = [((''/v1/nodes/'', ''u1''), [(''uuid'', JStr ''u1''), (''name'', JStr ''old'')])],
      rm_requests = []\<rparr>"

text \<open>
  A remote side that holds the node \<^verbatim>\<open>u1\<close> with every attribute of the example resource.
\<close>

definition remote_with_whole_u1 :: "collections remote" where
  "remote_with_whole_u1 =
     \<lparr>rm_http = [((''/v1/nodes/'', ''u1''),
                   [(''uuid'', JStr ''u1''), (''name'', JStr ''old''), (''cores'', JInt 1)])],
      rm_requests = []\<rparr>"

text \<open>
  A world in drift: the store knows \<^verbatim>\<open>u1\<close> and \<^verbatim>\<open>u3\<close>, the remote side holds \<^verbatim>\<open>u1\<close> and
  \<^verbatim>\<open>u2\<close>.
\<close>

definition drifted_world :: "collections remote world" where
  "drifted_world =
     \<lparr>w_storage = [((''node'', ''u1''), {''name''}), ((''node'', ''u3''), {''name''})],
      w_backend =
        \<lparr>rm_http =
           [((''/v1/nodes/'', ''u1''), [(''uuid'', JStr ''u1''), (''name'', JStr ''a'')]),
            ((''/v1/nodes/'', ''u2''), [(''uuid'', JStr ''u2''), (''name'', JStr ''b'')])],
         rm_requests = []\<rparr>,
      w_trace = []\<rparr>"

text \<open>The example resource again, assigned to another project than the client's.\<close>

definition foreign_resource :: resource where
  "foreign_resource =
     \<lparr>r_uuid = ''u1'', r_kind = ''node'',
      r_value = [(''name'', JStr ''n1''), (''project_id'', JStr ''p2'')],
      r_target_fields = {''name'', ''project_id''}\<rparr>"

text \<open>A remote side that is down: every request ends in a server error.\<close>

definition unavailable_http :: "unit http_client" where
  "unavailable_http =
     \<lparr>http_get = (\<lambda>h url u. (Inl (BazookaError ''503''), h)),
      http_create = (\<lambda>h url v. (Inl (BazookaError ''503''), h)),
      http_update = (\<lambda>h url u v. (Inl (BazookaError ''503''), h)),
      http_filter = (\<lambda>h url project_id. (Inl (BazookaError ''503''), h)),
      http_delete = (\<lambda>h url u. (Inl (BazookaError ''503''), h))\<rparr>"

definition unavailable_driver :: "unit remote driver" where
  "unavailable_driver =
     \<lparr>d_client = rest_backend
                   \<lparr>rc_client = unavailable_http,
                    rc_collection_map = [''node'' \<mapsto> ''/v1/nodes/''],
                    rc_project_id = ''p1''\<rparr>,
      d_transformer_map = Map.empty,
      d_capabilities = {''node''}\<rparr>"

section \<open>Properties of the hash engine\<close>

subsection \<open>Sorted items do not depend on the insertion order\<close>

lemma sorted_items_unique:
  assumes dx: "distinct (map fst xs)" and dy: "distinct (map fst ys)"
    and keys: "set (map fst xs) = set (map fst ys)"
  shows "map fst (sort_key fst xs) = map fst (sort_key fst ys)"
proof (rule sorted_distinct_set_unique)
  show "sorted (map fst (sort_key fst xs))" "sorted (map fst (sort_key fst ys))"
    by (rule sorted_sort_key)+
  show "distinct (map fst (sort_key fst xs))"
    using dx by (simp add: distinct_map inj_on_def)
  show "distinct (map fst (sort_key fst ys))"
    using dy by (simp add: distinct_map inj_on_def)
  show "set (map fst (sort_key fst xs)) = set (map fst (sort_key fst ys))"
    using keys by simp
qed

lemma map_items_eq:
  assumes "map fst xs = map fst ys"
    and "\<And>k v w. (k, v) \<in> set xs \<Longrightarrow> (k, w) \<in> set ys \<Longrightarrow> f k v = f k w"
  shows "map (\<lambda>(k, v). f k v) xs = map (\<lambda>(k, v). f k v) ys"
  using assms
proof (induction xs arbitrary: ys)
  case Nil
  then show ?case by simp
next
  case (Cons x xs)
  then obtain y ys' where ys: "ys = y # ys'"
    by (cases ys) auto
  with Cons.prems(1) have k: "fst x = fst y" and rest: "map fst xs = map fst ys'"
    by simp_all
  have "(fst x, snd x) \<in> set (x # xs)"
    by simp
  moreover have "(fst x, snd y) \<in> set ys"
    by (simp add: ys k)
  ultimately have "f (fst x) (snd x) = f (fst x) (snd y)"
    by (rule Cons.prems(2))
  moreover have "map (\<lambda>(k, v). f k v) xs = map (\<lambda>(k, v). f k v) ys'"
    by (rule Cons.IH [OF rest]) (auto simp: ys intro: Cons.prems(2))
  ultimately show ?case
    using k by (cases x, cases y) (simp add: ys)
qed

lemma sorted_items_encode_eq:
  assumes dx: "distinct (map fst xs)" and dy: "distinct (map fst ys)"
    and keys: "set (map fst xs) = set (map fst ys)"
    and vals: "\<And>k v w. (k, v) \<in> set xs \<Longrightarrow> (k, w) \<in> set ys \<Longrightarrow> f k v = f k w"
  shows "map (\<lambda>(k, v). f k v) (sort_key fst xs) = map (\<lambda>(k, v). f k v) (sort_key fst ys)"
proof (rule map_items_eq)
  show "map fst (sort_key fst xs) = map fst (sort_key fst ys)"
    by (rule sorted_items_unique [OF dx dy keys])
next
  fix k v w
  assume "(k, v) \<in> set (sort_key fst xs)" and "(k, w) \<in> set (sort_key fst ys)"
  then show "f k v = f k w"
    by (simp add: vals)
qed

lemma map_zip_eq:
  assumes "length xs = length ys"
    and "\<And>v w. (v, w) \<in> set (zip xs ys) \<Longrightarrow> f v = f w"
  shows "map f xs = map f ys"
  using assms by (induction xs ys rule: list_induct2) auto

lemma json_dumps_same_content:
  "same_content a b \<Longrightarrow> wf_json a \<Longrightarrow> wf_json b \<Longrightarrow> json_dumps a = json_dumps b"
proof (induction a b rule: same_content.induct)
  case (1 xs ys)
  have "map (\<lambda>(k, v). case json_dumps v of Inl e \<Rightarrow> Inl e
                        | Inr s \<Rightarrow> Inr (encode_basestring_ascii k @ '':'' @ s)) (sort_key fst xs)
      = map (\<lambda>(k, v). case json_dumps v of Inl e \<Rightarrow> Inl e
                        | Inr s \<Rightarrow> Inr (encode_basestring_ascii k @ '':'' @ s)) (sort_key fst ys)"
  proof (rule sorted_items_encode_eq)
    show "distinct (map fst xs)" "distinct (map fst ys)"
      using "1.prems" by simp_all
    show "set (map fst xs) = set (map fst ys)"
      using "1.prems" by simp
  next
    fix k v w
    assume in_xs: "(k, v) \<in> set xs" and in_ys: "(k, w) \<in> set ys"
    have "json_dumps v = json_dumps w"
    proof (rule "1.IH" [OF in_xs refl in_ys refl refl])
      show "same_content v w" using "1.prems"(1) in_xs in_ys by auto
      show "wf_json v" using "1.prems"(2) in_xs by auto
      show "wf_json w" using "1.prems"(3) in_ys by auto
    qed
    then show "(case json_dumps v of Inl e \<Rightarrow> Inl e
                | Inr s \<Rightarrow> Inr (encode_basestring_ascii k @ '':'' @ s))
             = (case json_dumps w of Inl e \<Rightarrow> Inl e
                | Inr s \<Rightarrow> Inr (encode_basestring_ascii k @ '':'' @ s))"
      by simp
  qed
  then show ?case by simp
next
  case (2 xs ys)
  have "map json_dumps xs = map json_dumps ys"
  proof (rule map_zip_eq)
    show "length xs = length ys" using "2.prems" by simp
  next
    fix v w
    assume vw: "(v, w) \<in> set (zip xs ys)"
    show "json_dumps v = json_dumps w"
    proof (rule "2.IH" [OF vw refl])
      show "same_content v w" using "2.prems"(1) vw by auto
      show "wf_json v" using "2.prems"(2) vw by (auto dest: set_zip_leftD)
      show "wf_json w" using "2.prems"(3) vw by (auto dest: set_zip_rightD)
    qed
  qed
  then show ?case by simp
qed simp_all

text \<open>
  C5. For any two mappings A and B with the same keys mapped to the same values, also
  inside nested mappings, but built in different insertion orders,
  \<^verbatim>\<open>calculate_hash(A) == calculate_hash(B)\<close>: the hash does not change when keys are
  reordered at any nesting level. The two values are Python dicts (each key once).
\<close>

theorem calculate_hash_key_order_invariant:
  assumes "wf_json a" and "wf_json b" and "same_content a b"
  shows "calculate_hash hash_method a = calculate_hash hash_method b"
  using assms by (simp add: calculate_hash_def json_dumps_same_content)

theorem calculate_hash_key_order_invariant_witness:
  "wf_json (JDict [(''name'', JStr ''foo''),
                   (''spec'', JDict [(''b'', JInt 2), (''a'', JList [JNull, JBool True])])])
   \<and> wf_json (JDict [(''spec'', JDict [(''a'', JList [JNull, JBool True]), (''b'', JInt 2)]),
                     (''name'', JStr ''foo'')])
   \<and> same_content
        (JDict [(''name'', JStr ''foo''),
                (''spec'', JDict [(''b'', JInt 2), (''a'', JList [JNull, JBool True])])])
        (JDict [(''spec'', JDict [(''a'', JList [JNull, JBool True]), (''b'', JInt 2)]),
                (''name'', JStr ''foo'')])
   \<and> calculate_hash (\<lambda>s. s)
        (JDict [(''name'', JStr ''foo''),
                (''spec'', JDict [(''b'', JInt 2), (''a'', JList [JNull, JBool True])])])
     = calculate_hash (\<lambda>s. s)
        (JDict [(''spec'', JDict [(''a'', JList [JNull, JBool True]), (''b'', JInt 2)]),
                (''name'', JStr ''foo'')])"
  using calculate_hash_key_order_invariant
    [of "JDict [(''name'', JStr ''foo''),
                (''spec'', JDict [(''b'', JInt 2), (''a'', JList [JNull, JBool True])])]"
        "JDict [(''spec'', JDict [(''a'', JList [JNull, JBool True]), (''b'', JInt 2)]),
                (''name'', JStr ''foo'')]"
        "\<lambda>s. s"]
  by auto

subsection \<open>When the encoder raises\<close>

lemma sequence_Inl_mem: "sequence xs = Inl e \<Longrightarrow> Inl e \<in> set xs"
  by (induction xs) (auto split: sum.splits)

lemma sequence_Inr_iff: "(\<exists>as. sequence xs = Inr as) \<longleftrightarrow> (\<forall>x\<in>set xs. \<exists>a. x = Inr a)"
  by (induction xs) (auto split: sum.splits)

lemma json_dumps_Inl:
  "json_dumps v = Inl e \<Longrightarrow>
   ((\<exists>msg. e = TypeError msg) \<and> has_unencodable v) \<or> (e = circular_reference \<and> has_circular v)"
proof (induction v arbitrary: e)
  case (JList xs)
  from JList.prems have "sequence (map json_dumps xs) = Inl e"
    by (simp split: sum.splits)
  then have "Inl e \<in> set (map json_dumps xs)"
    by (rule sequence_Inl_mem)
  then obtain x where x: "x \<in> set xs" and "json_dumps x = Inl e"
    by auto
  then have "((\<exists>msg. e = TypeError msg) \<and> has_unencodable x)
             \<or> (e = circular_reference \<and> has_circular x)"
    by (rule JList.IH)
  with x show ?case
    by auto
next
  case (JDict kvs)
  let ?enc = "\<lambda>(k, v). case json_dumps v of
                           Inl e \<Rightarrow> Inl e
                         | Inr s \<Rightarrow> Inr (encode_basestring_ascii k @ '':'' @ s)"
  from JDict.prems have "sequence (map ?enc (sort_key fst kvs)) = Inl e"
    by (simp split: sum.splits)
  then have "Inl e \<in> set (map ?enc (sort_key fst kvs))"
    by (rule sequence_Inl_mem)
  then obtain k x where kx: "(k, x) \<in> set kvs" and "?enc (k, x) = Inl e"
    by auto
  then have "json_dumps x = Inl e"
    by (simp split: sum.splits)
  moreover from kx have "x \<in> Basic_BNFs.snds (k, x)"
    by simp
  ultimately have "((\<exists>msg. e = TypeError msg) \<and> has_unencodable x)
             \<or> (e = circular_reference \<and> has_circular x)"
    using kx JDict.IH by blast
  with kx show ?case
    by auto
qed (auto simp: not_serializable_def bad_key_def)

lemma json_dumps_Inr_iff:
  "(\<exists>s. json_dumps v = Inr s) \<longleftrightarrow> \<not> has_unencodable v \<and> \<not> has_circular v"
proof (induction v)
  case (JList xs)
  have "(\<exists>s. json_dumps (JList xs) = Inr s) \<longleftrightarrow> (\<exists>ss. sequence (map json_dumps xs) = Inr ss)"
    by (auto split: sum.splits)
  also have "\<dots> \<longleftrightarrow> (\<forall>x\<in>set xs. \<exists>s. json_dumps x = Inr s)"
    by (simp add: sequence_Inr_iff)
  also have "\<dots> \<longleftrightarrow> (\<forall>x\<in>set xs. \<not> has_unencodable x \<and> \<not> has_circular x)"
    using JList.IH by simp
  finally show ?case by auto
next
  case (JDict kvs)
  let ?enc = "\<lambda>(k, v). case json_dumps v of
                           Inl e \<Rightarrow> Inl e
                         | Inr s \<Rightarrow> Inr (encode_basestring_ascii k @ '':'' @ s)"
  have "(\<exists>s. json_dumps (JDict kvs) = Inr s)
        \<longleftrightarrow> (\<exists>ss. sequence (map ?enc (sort_key fst kvs)) = Inr ss)"
    by (auto split: sum.splits)
  also have "\<dots> \<longleftrightarrow> (\<forall>kx\<in>set kvs. \<exists>a. ?enc kx = Inr a)"
    by (simp add: sequence_Inr_iff)
  also have "\<dots> \<longleftrightarrow> (\<forall>(k, x)\<in>set kvs. \<exists>s. json_dumps x = Inr s)"
    by (rule ball_cong) (auto split: sum.splits)
  also have "\<dots> \<longleftrightarrow> (\<forall>(k, x)\<in>set kvs. \<not> has_unencodable x \<and> \<not> has_circular x)"
  proof (rule ball_cong [OF refl])
    fix kx assume mem: "kx \<in> set kvs"
    have "snd kx \<in> Basic_BNFs.snds kx"
      by (cases kx) simp
    with mem have "(\<exists>s. json_dumps (snd kx) = Inr s)
                   \<longleftrightarrow> \<not> has_unencodable (snd kx) \<and> \<not> has_circular (snd kx)"
      by (rule JDict.IH)
    then show "(case kx of (k, x) \<Rightarrow> \<exists>s. json_dumps x = Inr s)
               \<longleftrightarrow> (case kx of (k, x) \<Rightarrow> \<not> has_unencodable x \<and> \<not> has_circular x)"
      by (simp add: case_prod_beta)
  qed
  finally show ?case by auto
qed simp_all

lemma canonical_encodable: "canonical v \<Longrightarrow> \<not> has_unencodable v \<and> \<not> has_circular v"
  by (induction v) auto

text \<open>
  C8 says that every value that cannot be canonically serialized makes \<^verbatim>\<open>calculate_hash\<close>
  fail. A float NaN has no JSON text, yet \<^verbatim>\<open>json.dumps\<close>, called with \<^verbatim>\<open>allow_nan\<close> left on,
  writes it as \<^verbatim>\<open>NaN\<close>, and \<^verbatim>\<open>calculate_hash\<close> returns the digest of that text.
\<close>

theorem calculate_hash_nan_counterexample:
  "\<not> canonical (JDict [(''load'', JFloat FNaN)])
   \<and> calculate_hash (\<lambda>s. s) (JDict [(''load'', JFloat FNaN)])
     = Inr (''{'' @ [CHR 0x22] @ ''load'' @ [CHR 0x22] @ '':NaN}'')"
  by (simp add: calculate_hash_def encode_basestring_ascii_def escape_char_def)

text \<open>
  C8, amended. \<^verbatim>\<open>calculate_hash\<close> fails exactly for the values that \<^verbatim>\<open>json.dumps\<close> cannot
  encode, with the exception that \<^verbatim>\<open>json.dumps\<close> raises, which nothing catches: a
  \<^verbatim>\<open>TypeError\<close> when the value holds an object without a JSON encoding or a dict key of a
  refused type, a \<^verbatim>\<open>ValueError\<close> when it holds a circular reference. The failure ends the
  operation: no digest is returned, nothing is retried. Every other value has a digest,
  that of its encoded text; so has every canonically serializable value, and so have
  the floats NaN and Infinity.
\<close>

theorem calculate_hash_failures:
  "(has_unencodable v \<or> has_circular v \<longrightarrow>
      ((\<exists>msg. calculate_hash hash_method v = Inl (TypeError msg)) \<and> has_unencodable v)
      \<or> (calculate_hash hash_method v = Inl circular_reference \<and> has_circular v))
   \<and> (\<not> has_unencodable v \<and> \<not> has_circular v \<longrightarrow>
      (\<exists>s. json_dumps v = Inr s \<and> calculate_hash hash_method v = Inr (hash_method s)))
   \<and> (canonical v \<longrightarrow>
      (\<exists>s. json_dumps v = Inr s \<and> calculate_hash hash_method v = Inr (hash_method s)))"
proof (cases "json_dumps v")
  case (Inl e)
  from json_dumps_Inl [OF Inl]
  have "((\<exists>msg. e = TypeError msg) \<and> has_unencodable v)
        \<or> (e = circular_reference \<and> has_circular v)" .
  moreover from Inl have "has_unencodable v \<or> has_circular v"
    using json_dumps_Inr_iff [of v] by auto
  moreover have "\<not> canonical v"
    using calculation(2) canonical_encodable by blast
  ultimately show ?thesis
    using Inl by (auto simp: calculate_hash_def)
next
  case (Inr s)
  moreover from Inr have "\<not> has_unencodable v \<and> \<not> has_circular v"
    using json_dumps_Inr_iff [of v] by auto
  ultimately show ?thesis
    by (simp add: calculate_hash_def)
qed

theorem calculate_hash_failures_witness:
  "has_unencodable (JDict [(''name'', JStr ''foo''), (''owner'', JObject ''UUID'')])
   \<and> calculate_hash (\<lambda>s. s) (JDict [(''name'', JStr ''foo''), (''owner'', JObject ''UUID'')])
     = Inl (TypeError ''Object of type UUID is not JSON serializable'')
   \<and> has_unencodable (JDict [(''labels'', JDictBadKey ''tuple'')])
   \<and> calculate_hash (\<lambda>s. s) (JDict [(''labels'', JDictBadKey ''tuple'')])
     = Inl (TypeError ''keys must be str, int, float, bool or None, not tuple'')
   \<and> has_circular (JList [JInt 1, JCircular])
   \<and> calculate_hash (\<lambda>s. s) (JList [JInt 1, JCircular])
     = Inl (ValueError ''Circular reference detected'')
   \<and> canonical (JDict [(''name'', JStr ''foo'')])
   \<and> (\<exists>s. calculate_hash (\<lambda>s. s) (JDict [(''name'', JStr ''foo'')]) = Inr s)"
proof -
  have a: "calculate_hash (\<lambda>s. s) (JDict [(''name'', JStr ''foo''), (''owner'', JObject ''UUID'')])
           = Inl (TypeError ''Object of type UUID is not JSON serializable'')"
    by (simp add: calculate_hash_def not_serializable_def encode_basestring_ascii_def
          escape_char_def)
  have b: "calculate_hash (\<lambda>s. s) (JDict [(''labels'', JDictBadKey ''tuple'')])
           = Inl (TypeError ''keys must be str, int, float, bool or None, not tuple'')"
    by (simp add: calculate_hash_def bad_key_def)
  have c: "calculate_hash (\<lambda>s. s) (JList [JInt 1, JCircular])
           = Inl (ValueError ''Circular reference detected'')"
    by (simp add: calculate_hash_def circular_reference_def int_repr_def)
  from calculate_hash_failures [of "JDict [(''name'', JStr ''foo'')]" "\<lambda>s. s"]
    calculate_hash_failures
      [of "JDict [(''name'', JStr ''foo''), (''owner'', JObject ''UUID'')]" "\<lambda>s. s"]
    a b c
  show ?thesis
    by simp
qed


section \<open>Properties of the reconciliation driver\<close>

subsection \<open>What \<^verbatim>\<open>list\<close> collects\<close>

lemma map_of_filter_keep:
  "map_of m k = Some v \<Longrightarrow> P (k, v) \<Longrightarrow> map_of (filter P m) k = Some v"
  by (induction m) (auto split: if_splits)

lemma make_uuid_Inr: "make_uuid UUID j = Inr u \<Longrightarrow> \<exists>s. j = JStr s"
  by (cases j) (simp_all add: make_uuid_def)

lemma map_of_transform_uuid:
  assumes "map_of m k = Some (JStr s)"
  shows "map_of (transform t m) k = Some (JStr s)"
  using assms by (auto simp: transform_def intro: map_of_filter_keep split: option.splits)

lemma from_value_item_uuid:
  assumes "from_value UUID (apply_transformer d capability m) capability fs = Inr r"
    and "item_uuid UUID (RawMapping m) = Inr u"
  shows "r_uuid r = u"
proof -
  from assms(2) obtain j where j: "map_of m ''uuid'' = Some j" and u: "make_uuid UUID j = Inr u"
    by (auto simp: item_uuid_def split: option.splits)
  from u obtain s where "j = JStr s"
    using make_uuid_Inr by blast
  with j have "map_of (apply_transformer d capability m) ''uuid'' = Some j"
    by (auto simp: apply_transformer_def map_of_transform_uuid split: option.splits)
  with assms(1) u show ?thesis
    by (auto simp: from_value_def split: sum.splits)
qed

lemma model_to_resource_uuid:
  "model_to_resource UUID d capability mo fs = Inr r \<Longrightarrow>
   model_to_resource UUID d capability mo fs' = Inr r' \<Longrightarrow> r_uuid r = r_uuid r'"
  by (auto simp: model_to_resource_def from_value_def split: option.splits sum.splits)

lemma model_consistent_uuid:
  assumes "model_consistent UUID d capability (OpaqueModel mo)"
    and "model_to_resource UUID d capability mo fs = Inr r"
  shows "r_uuid r = m_uuid mo"
proof -
  from assms(2) obtain r' where r': "model_to_resource UUID d capability mo {} = Inr r'"
    by (auto simp: model_to_resource_def from_value_def split: option.splits sum.splits)
  with assms(1) have "r_uuid r' = m_uuid mo"
    by (simp add: model_consistent_def)
  with model_to_resource_uuid [OF assms(2) r'] show ?thesis
    by simp
qed

lemma set_update_subset: "set (AList.update k v al) \<subseteq> insert (k, v) (set al)"
  by (induction al) auto

lemma collect_keys:
  "collect_client_items UUID d capability si items acc = Inr cr \<Longrightarrow>
   fst ` set cr \<inter> fst ` set si = (fst ` set acc \<union> backend_uuids UUID items) \<inter> fst ` set si"
proof (induction items arbitrary: acc)
  case Nil
  then show ?case by (simp add: backend_uuids_def)
next
  case (Cons i items)
  have bu: "backend_uuids UUID (j # items)
            = {u. item_uuid UUID j = Inr u} \<union> backend_uuids UUID items" for j
    by (auto simp: backend_uuids_def)
  show ?case
  proof (cases i)
    case (TypedResource r)
    with Cons.prems have "collect_client_items UUID d capability si items
                            (AList.update (r_uuid r) r acc) = Inr cr"
      by simp
    from Cons.IH [OF this] show ?thesis
      by (auto simp: bu TypedResource item_uuid_def dom_update)
  next
    case (RawMapping m)
    with Cons.prems obtain u where u: "item_uuid UUID i = Inr u"
      by (auto split: sum.splits)
    show ?thesis
    proof (cases "map_of si u")
      case None
      with Cons.prems RawMapping u
      have "collect_client_items UUID d capability si items acc = Inr cr"
        by simp
      moreover from None have "u \<notin> fst ` set si"
        by (simp add: map_of_eq_None_iff)
      ultimately show ?thesis
        using Cons.IH [of acc] u by (auto simp: bu)
    next
      case (Some storage_item)
      with Cons.prems RawMapping u obtain r where
        "collect_client_items UUID d capability si items (AList.update u r acc) = Inr cr"
        by (auto split: sum.splits)
      from Cons.IH [OF this] u show ?thesis
        by (auto simp: bu dom_update)
    qed
  next
    case (OpaqueModel mo)
    then have u: "item_uuid UUID i = Inr (m_uuid mo)"
      by (simp add: item_uuid_def)
    show ?thesis
    proof (cases "map_of si (m_uuid mo)")
      case None
      with Cons.prems OpaqueModel
      have "collect_client_items UUID d capability si items acc = Inr cr"
        by simp
      moreover from None have "m_uuid mo \<notin> fst ` set si"
        by (simp add: map_of_eq_None_iff)
      ultimately show ?thesis
        using Cons.IH [of acc] u by (auto simp: bu)
    next
      case (Some storage_item)
      with Cons.prems OpaqueModel obtain r where
        "collect_client_items UUID d capability si items (AList.update (m_uuid mo) r acc) = Inr cr"
        by (auto split: sum.splits)
      from Cons.IH [OF this] u show ?thesis
        by (auto simp: bu dom_update)
    qed
  qed
qed

lemma collect_distinct:
  "collect_client_items UUID d capability si items acc = Inr cr \<Longrightarrow>
   distinct (map fst acc) \<Longrightarrow> distinct (map fst cr)"
proof (induction items arbitrary: acc)
  case Nil
  then show ?case by simp
next
  case (Cons i items)
  then show ?case
    by (cases i) (auto simp: distinct_update split: sum.splits option.splits)
qed

lemma collect_uuid:
  "collect_client_items UUID d capability si items acc = Inr cr \<Longrightarrow>
   \<forall>i\<in>set items. model_consistent UUID d capability i \<Longrightarrow>
   \<forall>(u, r)\<in>set acc. r_uuid r = u \<Longrightarrow> \<forall>(u, r)\<in>set cr. r_uuid r = u"
proof (induction items arbitrary: acc)
  case Nil
  then show ?case by simp
next
  case (Cons i items)
  have step: "\<forall>(u, r)\<in>set (AList.update k v acc). r_uuid r = u" if "r_uuid v = k" for k v
    using that Cons.prems(3) set_update_subset [of k v acc] by auto
  from Cons.prems(2) have rest: "\<forall>i\<in>set items. model_consistent UUID d capability i"
    by simp
  show ?case
  proof (cases i)
    case (TypedResource r)
    with Cons.prems(1) have "collect_client_items UUID d capability si items
                            (AList.update (r_uuid r) r acc) = Inr cr"
      by simp
    from Cons.IH [OF this rest step] show ?thesis
      by simp
  next
    case (RawMapping m)
    with Cons.prems(1) obtain u where u: "item_uuid UUID (RawMapping m) = Inr u"
      by (auto split: sum.splits)
    show ?thesis
    proof (cases "map_of si u")
      case None
      with Cons.prems(1) RawMapping u
      have "collect_client_items UUID d capability si items acc = Inr cr"
        by simp
      from Cons.IH [OF this rest Cons.prems(3)] show ?thesis .
    next
      case (Some storage_item)
      with Cons.prems(1) RawMapping u obtain r where
        r: "from_value UUID (apply_transformer d capability m) capability
              (tf_fields storage_item) = Inr r"
        and c: "collect_client_items UUID d capability si items (AList.update u r acc) = Inr cr"
        by (auto split: sum.splits)
      from from_value_item_uuid [OF r u] have "r_uuid r = u" .
      from Cons.IH [OF c rest step [OF this]] show ?thesis .
    qed
  next
    case (OpaqueModel mo)
    with Cons.prems(2) have ok: "model_consistent UUID d capability (OpaqueModel mo)"
      by simp
    show ?thesis
    proof (cases "map_of si (m_uuid mo)")
      case None
      with Cons.prems(1) OpaqueModel
      have "collect_client_items UUID d capability si items acc = Inr cr"
        by simp
      from Cons.IH [OF this rest Cons.prems(3)] show ?thesis .
    next
      case (Some storage_item)
      with Cons.prems(1) OpaqueModel obtain r where
        r: "model_to_resource UUID d capability mo (tf_fields storage_item) = Inr r"
        and c: "collect_client_items UUID d capability si items
                  (AList.update (m_uuid mo) r acc) = Inr cr"
        by (auto split: sum.splits)
      from model_consistent_uuid [OF ok r] have "r_uuid r = m_uuid mo" .
      from Cons.IH [OF c rest step [OF this]] show ?thesis .
    qed
  qed
qed

lemma dom_dict_of_aux:
  "fst ` set (fold (\<lambda>(k, v). AList.update k v) kvs acc) = fst ` set acc \<union> fst ` set kvs"
proof (induction kvs arbitrary: acc)
  case Nil
  then show ?case by simp
next
  case (Cons kv kvs)
  obtain k v where kv: "kv = (k, v)"
    by (cases kv)
  have "fst ` set (fold (\<lambda>(k, v). AList.update k v) (kv # kvs) acc)
        = fst ` set (AList.update k v acc) \<union> fst ` set kvs"
    using Cons.IH by (simp add: kv)
  also have "\<dots> = ({k} \<union> fst ` set acc) \<union> fst ` set kvs"
    by (simp only: dom_update)
  finally show ?case
    by (auto simp: kv)
qed

lemma dom_dict_of: "fst ` set (dict_of kvs) = fst ` set kvs"
  by (simp add: dict_of_def dom_dict_of_aux)

lemma storage_list_uuids: "tf_uuid ` set (storage_list st k) = stored_uuids st k"
proof -
  have "tf_uuid ` set (storage_list st k) = {u. (k, u) \<in> fst ` set (AList.clearjunk st)}"
    by (force simp: storage_list_def)
  also have "\<dots> = {u. map_of st (k, u) \<noteq> None}"
    by (simp add: dom_clearjunk map_of_eq_None_iff)
  finally show ?thesis
    by (simp add: stored_uuids_def)
qed

lemma storage_items_keys:
  "fst ` set (dict_of (map (\<lambda>i. (tf_uuid i, i)) (storage_list st k))) = stored_uuids st k"
  by (simp add: dom_dict_of image_image storage_list_uuids)

lemma driver_list_result:
  assumes "capability \<in> d_capabilities d"
    and "c_list (d_client d) (w_backend w) capability = (Inr items, b)"
    and "\<forall>i\<in>set items. model_consistent UUID d capability i"
    and "driver_list UUID d w capability = (Inr rs, w')"
  shows "r_uuid ` set rs = stored_uuids (w_storage w) capability \<inter> backend_uuids UUID items"
    and "distinct (map r_uuid rs)"
proof -
  let ?si = "dict_of (map (\<lambda>i. (tf_uuid i, i)) (storage_list (w_storage w) capability))"
  from assms(1,2,4) obtain cr where
    cr: "collect_client_items UUID d capability ?si items [] = Inr cr"
    and rs: "rs = map snd (filter (\<lambda>(u, r). u \<in> set (map fst ?si)) cr)"
    by (auto simp: driver_list_def log_call_def Let_def split: sum.splits)
  have keys: "fst ` set ?si = stored_uuids (w_storage w) capability"
    by (rule storage_items_keys)
  from collect_uuid [OF cr assms(3)] have uu: "\<forall>(u, r)\<in>set cr. r_uuid r = u"
    by simp
  from collect_distinct [OF cr] have dist: "distinct (map fst cr)"
    by simp
  from collect_keys [OF cr]
  have ck: "fst ` set cr \<inter> fst ` set ?si = backend_uuids UUID items \<inter> fst ` set ?si"
    by simp
  have same: "map r_uuid rs = map fst (filter (\<lambda>(u, r). u \<in> set (map fst ?si)) cr)"
    unfolding rs using uu by (induction cr) auto
  have "r_uuid ` set rs = set (map r_uuid rs)"
    by simp
  also have "\<dots> = fst ` set cr \<inter> fst ` set ?si"
    unfolding same by force
  finally show "r_uuid ` set rs = stored_uuids (w_storage w) capability \<inter> backend_uuids UUID items"
    using ck keys by auto
  show "distinct (map r_uuid rs)"
    unfolding same using dist by (simp add: distinct_map_filter)
qed


lemmas eval_defs =
  driver_get_def driver_list_def driver_create_def driver_update_def driver_delete_def
  validate_def get_handler_def update_handler_def log_call_def prepare_res_response_def
  apply_transformer_def replace_value_def from_value_def make_uuid_def item_uuid_def
  dict_of_def storage_get_def storage_create_def storage_update_def storage_delete_def
  storage_list_def tf_key_def
  rest_backend_def rest_get_def rest_create_def rest_update_def rest_list_def rest_delete_def
  ref_of_def lift_result_def sent_def dict_get_def
  memory_http_def body_uuid_def unavailable_http_def unavailable_driver_def
  example_UUID_def example_rest_def example_driver_def example_resource_def Let_def
  empty_remote_def remote_with_u1_def remote_with_whole_u1_def drifted_world_def
  foreign_resource_def

text \<open>
  C1. For every capability the driver accepts, \<^verbatim>\<open>list(capability)\<close> returns exactly the
  resources whose uuid is both in the store's listing and in the client's listing for
  the capability, each once: a uuid that the backend reports and the store does not
  have is never in the result, and neither is a uuid that only the store has. An opaque
  model in the listing has to be consistent: its view carries its own uuid.
\<close>

theorem driver_list_intersection:
  assumes "capability \<in> d_capabilities d"
    and "c_list (d_client d) (w_backend w) capability = (Inr items, b)"
    and "\<forall>i\<in>set items. model_consistent UUID d capability i"
    and "driver_list UUID d w capability = (Inr rs, w')"
  shows "r_uuid ` set rs = stored_uuids (w_storage w) capability \<inter> backend_uuids UUID items
         \<and> distinct (map r_uuid rs)
         \<and> (\<forall>u. u \<in> backend_uuids UUID items \<and> u \<notin> stored_uuids (w_storage w) capability
                \<longrightarrow> u \<notin> r_uuid ` set rs)
         \<and> (\<forall>u. u \<in> stored_uuids (w_storage w) capability \<and> u \<notin> backend_uuids UUID items
                \<longrightarrow> u \<notin> r_uuid ` set rs)"
  using driver_list_result [OF assms] by auto


theorem driver_list_intersection_witness:
  "''node'' \<in> d_capabilities example_driver
   \<and> fst (c_list (d_client example_driver) (w_backend drifted_world) ''node'')
       = Inr [RawMapping [(''uuid'', JStr ''u1''), (''name'', JStr ''a'')],
              RawMapping [(''uuid'', JStr ''u2''), (''name'', JStr ''b'')]]
   \<and> stored_uuids (w_storage drifted_world) ''node'' = {''u1'', ''u3''}
   \<and> backend_uuids example_UUID
         [RawMapping [(''uuid'', JStr ''u1''), (''name'', JStr ''a'')],
          RawMapping [(''uuid'', JStr ''u2''), (''name'', JStr ''b'')]] = {''u1'', ''u2''}
   \<and> fst (driver_list example_UUID example_driver drifted_world ''node'')
       = Inr [\<lparr>r_uuid = ''u1'', r_kind = ''node'',
                r_value = [(''uuid'', JStr ''u1''), (''name'', JStr ''a'')],
                r_target_fields = {''name''}\<rparr>]
   \<and> r_uuid ` set [\<lparr>r_uuid = ''u1'', r_kind = ''node'',
                r_value = [(''uuid'', JStr ''u1''), (''name'', JStr ''a'')],
                r_target_fields = {''name''}\<rparr>] = {''u1'', ''u3''} \<inter> {''u1'', ''u2''}"
proof -
  let ?items = "[RawMapping [(''uuid'', JStr ''u1''), (''name'', JStr ''a'')],
                 RawMapping [(''uuid'', JStr ''u2''), (''name'', JStr ''b'')]]"
  let ?rs = "[\<lparr>r_uuid = ''u1'', r_kind = ''node'',
                r_value = [(''uuid'', JStr ''u1''), (''name'', JStr ''a'')],
                r_target_fields = {''name''}\<rparr>]"
  have k: "''node'' \<in> d_capabilities example_driver"
    by (simp add: example_driver_def)
  have c1: "fst (c_list (d_client example_driver) (w_backend drifted_world) ''node'')
            = Inr ?items"
    by (simp add: eval_defs)
  then have c: "c_list (d_client example_driver) (w_backend drifted_world) ''node''
                = (Inr ?items,
                   snd (c_list (d_client example_driver) (w_backend drifted_world) ''node''))"
    by (metis prod.collapse)
  have m: "\<forall>i\<in>set ?items. model_consistent example_UUID example_driver ''node'' i"
    by (simp add: model_consistent_def)
  have l1: "fst (driver_list example_UUID example_driver drifted_world ''node'') = Inr ?rs"
    by (simp add: eval_defs)
  then have l: "driver_list example_UUID example_driver drifted_world ''node''
                = (Inr ?rs, snd (driver_list example_UUID example_driver drifted_world ''node''))"
    by (metis prod.collapse)
  have s: "stored_uuids (w_storage drifted_world) ''node'' = {''u1'', ''u3''}"
    by (auto simp: drifted_world_def stored_uuids_def)
  have b: "backend_uuids example_UUID ?items = {''u1'', ''u2''}"
    by (auto simp: backend_uuids_def eval_defs)
  from driver_list_intersection [OF k c m l] k c1 l1 s b show ?thesis
    by simp
qed

subsection \<open>\<^verbatim>\<open>update\<close>: the remote side first\<close>

lemma map_of_update_same: "map_of (AList.update k v al) k = Some v"
  by (simp add: update_conv')

text \<open>
  C2. For every resource of a supported kind, \<^verbatim>\<open>update(resource)\<close> calls the client's update
  before it touches the store, and writes the new target fields to the store only if
  the remote update succeeded: after a successful remote update the store is called,
  and the entry recorded for (kind, uuid) becomes the keys of the resource's value.
  Whenever the remote update fails (so when the backend raises ResourceNotFound, which
  the driver turns into its own), the store is never called and is left exactly as it
  was.
\<close>

theorem driver_update_remote_first:
  assumes "r_kind r \<in> d_capabilities d"
    and "c_update (d_client d) (w_backend w) r = (cres, b)"
    and "driver_update UUID d w r = (res, w')"
  shows "w_backend w' = b
         \<and> (\<forall>e. cres = Inl e \<longrightarrow>
                res = Inl (update_handler e)
                \<and> w_storage w' = w_storage w
                \<and> w_trace w' = w_trace w @ [ClientUpdate r])
         \<and> (\<forall>resp. cres = Inr resp \<longrightarrow>
                w_trace w' = w_trace w @
                  [ClientUpdate r,
                   StorageUpdate \<lparr>tf_kind = r_kind r, tf_uuid = r_uuid r,
                                  tf_fields = set (map fst (r_value r))\<rparr>])
         \<and> (\<forall>resp. cres = Inr resp \<and> map_of (w_storage w) (r_kind r, r_uuid r) \<noteq> None \<longrightarrow>
                res = prepare_res_response UUID d r resp (set (map fst (r_value r)))
                \<and> w_storage w' = AList.update (r_kind r, r_uuid r)
                                   (set (map fst (r_value r))) (w_storage w)
                \<and> map_of (w_storage w') (r_kind r, r_uuid r)
                    = Some (set (map fst (r_value r))))
         \<and> (\<forall>resp. cres = Inr resp \<and> map_of (w_storage w) (r_kind r, r_uuid r) = None \<longrightarrow>
                w_storage w' = w_storage w)
         \<and> (w_storage w' \<noteq> w_storage w \<longrightarrow> (\<exists>resp. cres = Inr resp))"
  using assms
  by (auto simp: driver_update_def validate_def log_call_def storage_update_def tf_key_def
        Let_def map_of_update_same split: sum.splits if_splits)

theorem driver_update_remote_first_witness:
  "r_kind example_resource \<in> d_capabilities example_driver
   \<and> fst (c_update (d_client example_driver) empty_remote example_resource)
       = Inl ClientResourceNotFound
   \<and> fst (driver_update example_UUID example_driver
            \<lparr>w_storage = [((''node'', ''u1''), {''name''})],
             w_backend = empty_remote, w_trace = []\<rparr>
            example_resource)
       = Inl DriverResourceNotFound
   \<and> w_storage (snd (driver_update example_UUID example_driver
            \<lparr>w_storage = [((''node'', ''u1''), {''name''})],
             w_backend = empty_remote, w_trace = []\<rparr>
            example_resource))
       = [((''node'', ''u1''), {''name''})]
   \<and> fst (c_update (d_client example_driver) remote_with_u1 example_resource)
       = Inr (RawMapping [(''uuid'', JStr ''u1''), (''name'', JStr ''n1''), (''cores'', JInt 2)])
   \<and> fst (driver_update example_UUID example_driver
            \<lparr>w_storage = [((''node'', ''u1''), {''name''})],
             w_backend = remote_with_u1, w_trace = []\<rparr>
            example_resource)
       = Inr \<lparr>r_uuid = ''u1'', r_kind = ''node'',
              r_value = [(''uuid'', JStr ''u1''), (''name'', JStr ''n1''), (''cores'', JInt 2)],
              r_target_fields = {''name'', ''cores''}\<rparr>
   \<and> w_storage (snd (driver_update example_UUID example_driver
            \<lparr>w_storage = [((''node'', ''u1''), {''name''})],
             w_backend = remote_with_u1, w_trace = []\<rparr>
            example_resource))
       = [((''node'', ''u1''), {''name'', ''cores''})]
   \<and> w_trace (snd (driver_update example_UUID example_driver
            \<lparr>w_storage = [((''node'', ''u1''), {''name''})],
             w_backend = remote_with_u1, w_trace = []\<rparr>
            example_resource))
       = [ClientUpdate example_resource,
          StorageUpdate \<lparr>tf_kind = ''node'', tf_uuid = ''u1'',
                         tf_fields = {''name'', ''cores''}\<rparr>]"
proof -
  let ?w = "\<lparr>w_storage = [((''node'', ''u1''), {''name''})],
             w_backend = empty_remote, w_trace = []\<rparr>
            :: collections remote world"
  let ?v = "\<lparr>w_storage = [((''node'', ''u1''), {''name''})],
             w_backend = remote_with_u1, w_trace = []\<rparr>
            :: collections remote world"
  let ?resp = "RawMapping [(''uuid'', JStr ''u1''), (''name'', JStr ''n1''), (''cores'', JInt 2)]"
  have k: "r_kind example_resource \<in> d_capabilities example_driver"
    by (simp add: example_resource_def example_driver_def)
  have c1: "fst (c_update (d_client example_driver) (w_backend ?w) example_resource)
            = Inl ClientResourceNotFound"
    by (simp add: eval_defs)
  then have c: "c_update (d_client example_driver) (w_backend ?w) example_resource
           = (Inl ClientResourceNotFound,
              snd (c_update (d_client example_driver) (w_backend ?w) example_resource))"
    by (metis prod.collapse)
  have u: "driver_update example_UUID example_driver ?w example_resource
           = (fst (driver_update example_UUID example_driver ?w example_resource),
              snd (driver_update example_UUID example_driver ?w example_resource))"
    by simp
  have d1: "fst (c_update (d_client example_driver) (w_backend ?v) example_resource)
            = Inr ?resp"
    by (simp add: eval_defs)
  then have d: "c_update (d_client example_driver) (w_backend ?v) example_resource
           = (Inr ?resp,
              snd (c_update (d_client example_driver) (w_backend ?v) example_resource))"
    by (metis prod.collapse)
  have v: "driver_update example_UUID example_driver ?v example_resource
           = (fst (driver_update example_UUID example_driver ?v example_resource),
              snd (driver_update example_UUID example_driver ?v example_resource))"
    by simp
  have p: "prepare_res_response example_UUID example_driver example_resource ?resp
             (set (map fst (r_value example_resource)))
           = Inr \<lparr>r_uuid = ''u1'', r_kind = ''node'',
                  r_value = [(''uuid'', JStr ''u1''), (''name'', JStr ''n1''),
                             (''cores'', JInt 2)],
                  r_target_fields = {''name'', ''cores''}\<rparr>"
    by (simp add: eval_defs)
  have e: "map_of (w_storage ?v) (r_kind example_resource, r_uuid example_resource) \<noteq> None"
    by (simp add: example_resource_def)
  note fail = driver_update_remote_first [OF k c u]
  note good = driver_update_remote_first [OF k d v]
  from fail have f1: "fst (driver_update example_UUID example_driver ?w example_resource)
                      = Inl DriverResourceNotFound"
    and f2: "w_storage (snd (driver_update example_UUID example_driver ?w example_resource))
             = w_storage ?w"
    by (simp_all add: update_handler_def)
  from good e p have g1: "fst (driver_update example_UUID example_driver ?v example_resource)
      = Inr \<lparr>r_uuid = ''u1'', r_kind = ''node'',
              r_value = [(''uuid'', JStr ''u1''), (''name'', JStr ''n1''), (''cores'', JInt 2)],
              r_target_fields = {''name'', ''cores''}\<rparr>"
    by simp
  from good e have g2: "w_storage (snd (driver_update example_UUID example_driver ?v
                                          example_resource))
      = AList.update (r_kind example_resource, r_uuid example_resource)
          (set (map fst (r_value example_resource))) (w_storage ?v)"
    by simp
  then have g2': "w_storage (snd (driver_update example_UUID example_driver ?v
                                          example_resource))
      = [((''node'', ''u1''), {''name'', ''cores''})]"
    by (simp add: example_resource_def)
  from good have g3: "w_trace (snd (driver_update example_UUID example_driver ?v
                                      example_resource))
      = w_trace ?v @ [ClientUpdate example_resource,
          StorageUpdate \<lparr>tf_kind = r_kind example_resource, tf_uuid = r_uuid example_resource,
                         tf_fields = set (map fst (r_value example_resource))\<rparr>]"
    by simp
  then have g3': "w_trace (snd (driver_update example_UUID example_driver ?v
                                      example_resource))
      = [ClientUpdate example_resource,
          StorageUpdate \<lparr>tf_kind = ''node'', tf_uuid = ''u1'',
                         tf_fields = {''name'', ''cores''}\<rparr>]"
    by (simp add: example_resource_def)
  from k c1 f1 f2 d1 g1 g2' g3' show ?thesis
    by simp
qed


subsection \<open>\<^verbatim>\<open>create\<close>: the store first\<close>

text \<open>
  C3 says that after a failed remote create a later \<^verbatim>\<open>get\<close> or \<^verbatim>\<open>list\<close> still reports
  NotFound or absence. It does not when the failure is a conflict: the remote side holds
  \<^verbatim>\<open>u1\<close>, the store does not; \<^verbatim>\<open>create\<close> raises ResourceAlreadyExists after it has written
  the store entry, and the \<^verbatim>\<open>get\<close> and the \<^verbatim>\<open>list\<close> that follow return the remote resource.
\<close>

theorem driver_create_conflict_counterexample:
  "fst (driver_create example_UUID example_driver
          \<lparr>w_storage = [], w_backend = remote_with_whole_u1, w_trace = []\<rparr> example_resource)
     = Inl DriverResourceAlreadyExists
   \<and> map_of (w_storage (snd (snd (driver_create example_UUID example_driver
          \<lparr>w_storage = [], w_backend = remote_with_whole_u1, w_trace = []\<rparr>
          example_resource))))
        (''node'', ''u1'')
     = Some {''name'', ''cores''}
   \<and> fst (driver_get example_UUID example_driver
          (snd (snd (driver_create example_UUID example_driver
             \<lparr>w_storage = [], w_backend = remote_with_whole_u1, w_trace = []\<rparr>
             example_resource)))
          example_resource)
     = Inr \<lparr>r_uuid = ''u1'', r_kind = ''node'',
            r_value = [(''uuid'', JStr ''u1''), (''name'', JStr ''old''), (''cores'', JInt 1)],
            r_target_fields = {''name'', ''cores''}\<rparr>
   \<and> fst (driver_list example_UUID example_driver
          (snd (snd (driver_create example_UUID example_driver
             \<lparr>w_storage = [], w_backend = remote_with_whole_u1, w_trace = []\<rparr>
             example_resource)))
          ''node'')
     = Inr [\<lparr>r_uuid = ''u1'', r_kind = ''node'',
             r_value = [(''uuid'', JStr ''u1''), (''name'', JStr ''old''), (''cores'', JInt 1)],
             r_target_fields = {''name'', ''cores''}\<rparr>]"
  by (simp add: eval_defs)

lemma driver_get_with_entry:
  assumes "r_kind r \<in> d_capabilities d"
    and "map_of (w_storage w) (r_kind r, r_uuid r) = Some fs"
    and "c_get (d_client d) (w_backend w) r = (gres, b)"
  shows "driver_get UUID d w r
         = ((case gres of
               Inl e \<Rightarrow> Inl (get_handler e)
             | Inr v \<Rightarrow> prepare_res_response UUID d r v fs),
            log_call (ClientGet r)
              ((log_call (StorageGet (r_kind r) (r_uuid r)) w)\<lparr>w_backend := b\<rparr>))"
  using assms
  by (simp add: driver_get_def validate_def log_call_def storage_get_def Let_def
        split: sum.splits)

lemma stored_uuids_update:
  "stored_uuids (AList.update (k, u) fs st) k = insert u (stored_uuids st k)"
  by (auto simp: stored_uuids_def update_conv')

text \<open>
  C3, amended. For every resource of a supported kind, \<^verbatim>\<open>create(resource)\<close> first writes to
  the store, with force, an item whose fields are exactly the keys of \<^verbatim>\<open>resource.value\<close>, and
  only then calls the client's create. Hence if the remote create fails or the pass
  crashes after the store write, the entry for (kind, uuid) is in the store, while a \<^verbatim>\<open>get\<close> or
  \<^verbatim>\<open>list\<close> that follows still reports NotFound or absence as long as the backend does not
  hold the resource: its get raises ResourceNotFound, its listing (its opaque models
  consistent) does not contain the uuid. That is so in particular when the failed create
  left the backend as it was and the resource was not there before.
\<close>

theorem driver_create_store_first:
  assumes "r_kind r \<in> d_capabilities d"
    and "c_create (d_client d) (w_backend w) r = (cres, r', b)"
    and "driver_create UUID d w r = (res, r'', w')"
  shows "w_trace w' = w_trace w @
           [StorageCreate \<lparr>tf_kind = r_kind r, tf_uuid = r_uuid r,
                           tf_fields = set (map fst (r_value r))\<rparr> True,
            ClientCreate r]
         \<and> w_storage w' = AList.update (r_kind r, r_uuid r) (set (map fst (r_value r)))
                            (w_storage w)
         \<and> map_of (w_storage w') (r_kind r, r_uuid r) = Some (set (map fst (r_value r)))
         \<and> w_backend w' = b \<and> r'' = r'
         \<and> (\<forall>e. cres = Inl e \<longrightarrow>
               res = Inl (if e = ClientResourceAlreadyExists then DriverResourceAlreadyExists
                          else e))
         \<and> (\<forall>resp. cres = Inr resp \<longrightarrow>
               res = prepare_res_response UUID d r' resp (set (map fst (r_value r))))
         \<and> (\<forall>r2 gres b2. r_kind r2 = r_kind r \<and> r_uuid r2 = r_uuid r
               \<and> c_get (d_client d) b r2 = (gres, b2) \<longrightarrow>
               driver_get UUID d w' r2
               = ((case gres of
                     Inl e \<Rightarrow> Inl (get_handler e)
                   | Inr v \<Rightarrow> prepare_res_response UUID d r2 v (set (map fst (r_value r)))),
                  log_call (ClientGet r2)
                    ((log_call (StorageGet (r_kind r) (r_uuid r)) w')\<lparr>w_backend := b2\<rparr>)))
         \<and> (\<forall>r2 b2. r_kind r2 = r_kind r \<and> r_uuid r2 = r_uuid r
               \<and> c_get (d_client d) b r2 = (Inl ClientResourceNotFound, b2) \<longrightarrow>
               fst (driver_get UUID d w' r2) = Inl DriverResourceNotFound)
         \<and> (\<forall>items b3 rs w3.
               c_list (d_client d) b (r_kind r) = (Inr items, b3)
               \<and> (\<forall>i\<in>set items. model_consistent UUID d (r_kind r) i)
               \<and> driver_list UUID d w' (r_kind r) = (Inr rs, w3) \<longrightarrow>
               (r_uuid r \<in> r_uuid ` set rs \<longleftrightarrow> r_uuid r \<in> backend_uuids UUID items))
         \<and> (\<forall>e r2 b2. cres = Inl e \<and> b = w_backend w
               \<and> r_kind r2 = r_kind r \<and> r_uuid r2 = r_uuid r
               \<and> c_get (d_client d) (w_backend w) r2 = (Inl ClientResourceNotFound, b2) \<longrightarrow>
               fst (driver_get UUID d w' r2) = Inl DriverResourceNotFound)
         \<and> (\<forall>e items b3 rs w3. cres = Inl e \<and> b = w_backend w
               \<and> c_list (d_client d) (w_backend w) (r_kind r) = (Inr items, b3)
               \<and> (\<forall>i\<in>set items. model_consistent UUID d (r_kind r) i)
               \<and> r_uuid r \<notin> backend_uuids UUID items
               \<and> driver_list UUID d w' (r_kind r) = (Inr rs, w3) \<longrightarrow>
               r_uuid r \<notin> r_uuid ` set rs)"
proof -
  from assms have tr: "w_trace w' = w_trace w @
           [StorageCreate \<lparr>tf_kind = r_kind r, tf_uuid = r_uuid r,
                           tf_fields = set (map fst (r_value r))\<rparr> True,
            ClientCreate r]"
    and st: "w_storage w' = AList.update (r_kind r, r_uuid r) (set (map fst (r_value r)))
                              (w_storage w)"
    and bk: "w_backend w' = b" and rr: "r'' = r'"
    and er: "\<forall>e. cres = Inl e \<longrightarrow>
               res = Inl (if e = ClientResourceAlreadyExists then DriverResourceAlreadyExists
                          else e)"
    and ok: "\<forall>resp. cres = Inr resp \<longrightarrow>
               res = prepare_res_response UUID d r' resp (set (map fst (r_value r)))"
    by (auto simp: driver_create_def validate_def log_call_def storage_create_def tf_key_def
          Let_def split: sum.splits)
  from st have entry: "map_of (w_storage w') (r_kind r, r_uuid r)
                       = Some (set (map fst (r_value r)))"
    by (simp only: map_of_update_same)
  have get: "driver_get UUID d w' r2
               = ((case gres of
                     Inl e \<Rightarrow> Inl (get_handler e)
                   | Inr v \<Rightarrow> prepare_res_response UUID d r2 v (set (map fst (r_value r)))),
                  log_call (ClientGet r2)
                    ((log_call (StorageGet (r_kind r) (r_uuid r)) w')\<lparr>w_backend := b2\<rparr>))"
    if "r_kind r2 = r_kind r" and "r_uuid r2 = r_uuid r"
      and "c_get (d_client d) b r2 = (gres, b2)" for r2 gres b2
    using driver_get_with_entry [of r2 d w' "set (map fst (r_value r))" gres b2 UUID]
      assms(1) entry that bk
    by simp
  have nf: "fst (driver_get UUID d w' r2) = Inl DriverResourceNotFound"
    if "r_kind r2 = r_kind r" and "r_uuid r2 = r_uuid r"
      and "c_get (d_client d) b r2 = (Inl ClientResourceNotFound, b2)" for r2 b2
    using get [OF that] by (simp add: get_handler_def)
  have lst: "r_uuid r \<in> r_uuid ` set rs \<longleftrightarrow> r_uuid r \<in> backend_uuids UUID items"
    if "c_list (d_client d) b (r_kind r) = (Inr items, b3)"
      and "\<forall>i\<in>set items. model_consistent UUID d (r_kind r) i"
      and "driver_list UUID d w' (r_kind r) = (Inr rs, w3)" for items b3 rs w3
  proof -
    from that(1) bk have "c_list (d_client d) (w_backend w') (r_kind r) = (Inr items, b3)"
      by simp
    from driver_list_result(1) [OF assms(1) this that(2,3)]
    show ?thesis
      by (simp add: st stored_uuids_update)
  qed
  have crash_get: "fst (driver_get UUID d w' r2) = Inl DriverResourceNotFound"
    if "b = w_backend w" and "r_kind r2 = r_kind r" and "r_uuid r2 = r_uuid r"
      and "c_get (d_client d) (w_backend w) r2 = (Inl ClientResourceNotFound, b2)" for r2 b2
    using nf [of r2 b2] that by simp
  have crash_list: "r_uuid r \<notin> r_uuid ` set rs"
    if "b = w_backend w"
      and "c_list (d_client d) (w_backend w) (r_kind r) = (Inr items, b3)"
      and "\<forall>i\<in>set items. model_consistent UUID d (r_kind r) i"
      and "r_uuid r \<notin> backend_uuids UUID items"
      and "driver_list UUID d w' (r_kind r) = (Inr rs, w3)" for items b3 rs w3
    using lst [of items b3 rs w3] that by simp
  from tr st entry bk rr er ok get nf lst crash_get crash_list show ?thesis
    by blast
qed

theorem driver_create_store_first_witness:
  "r_kind foreign_resource \<in> d_capabilities example_driver
   \<and> c_create (d_client example_driver) empty_remote foreign_resource
       = (Inl ClientResourceProjectMismatch,
          foreign_resource\<lparr>r_value := [(''name'', JStr ''n1''), (''project_id'', JStr ''p2''),
                                       (''uuid'', JStr ''u1'')]\<rparr>,
          empty_remote)
   \<and> fst (driver_create example_UUID example_driver
            \<lparr>w_storage = [], w_backend = empty_remote, w_trace = []\<rparr> foreign_resource)
       = Inl ClientResourceProjectMismatch
   \<and> map_of (w_storage (snd (snd (driver_create example_UUID example_driver
            \<lparr>w_storage = [], w_backend = empty_remote, w_trace = []\<rparr> foreign_resource))))
         (''node'', ''u1'')
       = Some {''name'', ''project_id''}
   \<and> fst (c_get (d_client example_driver) empty_remote foreign_resource)
       = Inl ClientResourceNotFound
   \<and> fst (driver_get example_UUID example_driver
            (snd (snd (driver_create example_UUID example_driver
               \<lparr>w_storage = [], w_backend = empty_remote, w_trace = []\<rparr> foreign_resource)))
            foreign_resource)
       = Inl DriverResourceNotFound
   \<and> w_trace (snd (driver_get example_UUID example_driver
            (snd (snd (driver_create example_UUID example_driver
               \<lparr>w_storage = [], w_backend = empty_remote, w_trace = []\<rparr> foreign_resource)))
            foreign_resource))
       = [StorageCreate \<lparr>tf_kind = ''node'', tf_uuid = ''u1'',
                         tf_fields = {''name'', ''project_id''}\<rparr> True,
          ClientCreate foreign_resource,
          StorageGet ''node'' ''u1'',
          ClientGet foreign_resource]
   \<and> fst (driver_list example_UUID example_driver
            (snd (snd (driver_create example_UUID example_driver
               \<lparr>w_storage = [], w_backend = empty_remote, w_trace = []\<rparr> foreign_resource)))
            ''node'')
       = Inr []"
proof -
  let ?w = "\<lparr>w_storage = [], w_backend = empty_remote, w_trace = []\<rparr>
            :: collections remote world"
  let ?out = "driver_create example_UUID example_driver ?w foreign_resource"
  let ?w' = "snd (snd ?out)"
  let ?r' = "foreign_resource\<lparr>r_value := [(''name'', JStr ''n1''), (''project_id'', JStr ''p2''),
                                            (''uuid'', JStr ''u1'')]\<rparr>"
  have k: "r_kind foreign_resource \<in> d_capabilities example_driver"
    by (simp add: foreign_resource_def example_driver_def)
  have c0: "c_create (d_client example_driver) empty_remote foreign_resource
            = (Inl ClientResourceProjectMismatch, ?r', empty_remote)"
    by (simp add: eval_defs)
  then have c: "c_create (d_client example_driver) (w_backend ?w) foreign_resource
                = (Inl ClientResourceProjectMismatch, ?r', empty_remote)"
    by simp
  have u: "?out = (fst ?out, fst (snd ?out), ?w')"
    by simp
  have g1: "fst (c_get (d_client example_driver) empty_remote foreign_resource)
            = Inl ClientResourceNotFound"
    by (simp add: eval_defs)
  then have g: "c_get (d_client example_driver) (w_backend ?w) foreign_resource
                = (Inl ClientResourceNotFound,
                   snd (c_get (d_client example_driver) (w_backend ?w) foreign_resource))"
    by (metis prod.collapse world.select_convs(2))
  have same: "empty_remote = w_backend ?w"
    by simp
  have l: "fst (driver_list example_UUID example_driver ?w' ''node'') = Inr []"
    by (simp add: eval_defs)
  have t: "w_trace (snd (driver_get example_UUID example_driver ?w' foreign_resource))
       = [StorageCreate \<lparr>tf_kind = ''node'', tf_uuid = ''u1'',
                         tf_fields = {''name'', ''project_id''}\<rparr> True,
          ClientCreate foreign_resource,
          StorageGet ''node'' ''u1'',
          ClientGet foreign_resource]"
    by (simp add: eval_defs)
  note ct = driver_create_store_first [OF k c u]
  from ct have r: "fst ?out = Inl ClientResourceProjectMismatch"
    by simp
  from ct have "map_of (w_storage ?w') (r_kind foreign_resource, r_uuid foreign_resource)
                 = Some (set (map fst (r_value foreign_resource)))"
    by blast
  then have e: "map_of (w_storage ?w') (''node'', ''u1'') = Some {''name'', ''project_id''}"
    by (simp add: foreign_resource_def)
  from ct same g have dg: "fst (driver_get example_UUID example_driver ?w' foreign_resource)
                       = Inl DriverResourceNotFound"
    by blast
  from k c0 r e g1 dg t l show ?thesis
    by simp
qed


subsection \<open>\<^verbatim>\<open>delete\<close>: the store entry goes when the remote side is done\<close>

text \<open>
  C4 says that the store entry is deleted regardless of the outcome of the remote
  delete. It is not when the remote delete raises anything but ResourceNotFound: with
  the remote side down, \<^verbatim>\<open>delete\<close> raises the server error, never calls the store, and the
  entry is still there.
\<close>

theorem driver_delete_regardless_counterexample:
  "fst (driver_delete unavailable_driver
          \<lparr>w_storage = [((''node'', ''u1''), {''name'', ''cores''})],
           w_backend = \<lparr>rm_http = (), rm_requests = []\<rparr>, w_trace = []\<rparr>
          example_resource)
     = Inl (BazookaError ''503'')
   \<and> w_trace (snd (driver_delete unavailable_driver
          \<lparr>w_storage = [((''node'', ''u1''), {''name'', ''cores''})],
           w_backend = \<lparr>rm_http = (), rm_requests = []\<rparr>, w_trace = []\<rparr>
          example_resource))
     = [ClientDelete example_resource]
   \<and> map_of (w_storage (snd (driver_delete unavailable_driver
          \<lparr>w_storage = [((''node'', ''u1''), {''name'', ''cores''})],
           w_backend = \<lparr>rm_http = (), rm_requests = []\<rparr>, w_trace = []\<rparr>
          example_resource))) (''node'', ''u1'')
     = Some {''name'', ''cores''}"
  by (simp add: eval_defs)

lemma map_of_delete_same: "map_of (AList.delete k al) k = None"
  by (simp add: AList.delete_conv')

text \<open>
  C4, amended. For every resource of a supported kind, \<^verbatim>\<open>delete(resource)\<close> treats the
  client's ResourceNotFound as success. Whether the remote delete succeeds or raises
  ResourceNotFound, the driver then deletes the store entry for (kind, uuid) with force
  and returns normally, so after \<^verbatim>\<open>delete\<close> has returned the entry is absent. Any other
  exception of the remote delete leaves \<^verbatim>\<open>delete\<close> at once, with the store unchanged.
\<close>

theorem driver_delete_idempotent:
  assumes "r_kind r \<in> d_capabilities d"
    and "c_delete (d_client d) (w_backend w) r = (cres, b)"
    and "driver_delete d w r = (res, w')"
  shows "(cres = Inr () \<or> cres = Inl ClientResourceNotFound \<longrightarrow>
            res = Inr ()
            \<and> w_trace w' = w_trace w @
                 [ClientDelete r,
                  StorageDelete \<lparr>tf_kind = r_kind r, tf_uuid = r_uuid r, tf_fields = {}\<rparr> True]
            \<and> w_storage w' = AList.delete (r_kind r, r_uuid r) (w_storage w))
         \<and> (cres \<noteq> Inr () \<and> cres \<noteq> Inl ClientResourceNotFound \<longrightarrow>
            res = cres \<and> w_storage w' = w_storage w
            \<and> w_trace w' = w_trace w @ [ClientDelete r])
         \<and> (res = Inr () \<longrightarrow> map_of (w_storage w') (r_kind r, r_uuid r) = None)"
  using assms
  by (auto simp: driver_delete_def validate_def log_call_def storage_delete_def tf_key_def
        Let_def map_of_delete_same split: sum.splits if_splits)

theorem driver_delete_idempotent_witness:
  "r_kind example_resource \<in> d_capabilities example_driver
   \<and> fst (c_delete (d_client example_driver) empty_remote example_resource)
       = Inl ClientResourceNotFound
   \<and> fst (driver_delete example_driver
            \<lparr>w_storage = [((''node'', ''u1''), {''name''})],
             w_backend = empty_remote, w_trace = []\<rparr>
            example_resource)
       = Inr ()
   \<and> map_of (w_storage (snd (driver_delete example_driver
            \<lparr>w_storage = [((''node'', ''u1''), {''name''})],
             w_backend = empty_remote, w_trace = []\<rparr>
            example_resource))) (''node'', ''u1'')
       = None"
proof -
  let ?w = "\<lparr>w_storage = [((''node'', ''u1''), {''name''})],
             w_backend = empty_remote, w_trace = []\<rparr>
            :: collections remote world"
  have k: "r_kind example_resource \<in> d_capabilities example_driver"
    by (simp add: example_resource_def example_driver_def)
  have c1: "fst (c_delete (d_client example_driver) (w_backend ?w) example_resource)
            = Inl ClientResourceNotFound"
    by (simp add: eval_defs)
  then have c: "c_delete (d_client example_driver) (w_backend ?w) example_resource
           = (Inl ClientResourceNotFound,
              snd (c_delete (d_client example_driver) (w_backend ?w) example_resource))"
    by (metis prod.collapse)
  have u: "driver_delete example_driver ?w example_resource
           = (fst (driver_delete example_driver ?w example_resource),
              snd (driver_delete example_driver ?w example_resource))"
    by simp
  from driver_delete_idempotent [OF k c u] k c1 show ?thesis
    by (simp add: example_resource_def)
qed

subsection \<open>Errors of the store that reach the caller\<close>

text \<open>
  C9. No driver operation lets a raw ItemNotFound or ItemAlreadyExists of the store reach
  its caller. \<^verbatim>\<open>update\<close> does: its handler catches the client's ResourceNotFound only, while
  the handler of \<^verbatim>\<open>get\<close> catches the store's ItemNotFound as well. Here the remote side
  holds \<^verbatim>\<open>u1\<close> and the store has no entry for it; the remote update succeeds, the store's
  update raises ItemNotFound, and that is what \<^verbatim>\<open>update\<close> raises.
\<close>

theorem driver_update_leaks_item_not_found:
  "fst (c_update (d_client example_driver)
          remote_with_u1 example_resource)
     = Inr (RawMapping [(''uuid'', JStr ''u1''), (''name'', JStr ''n1''), (''cores'', JInt 2)])
   \<and> fst (driver_update example_UUID example_driver
          \<lparr>w_storage = [],
           w_backend = remote_with_u1, w_trace = []\<rparr>
          example_resource)
     = Inl StorageItemNotFound"
  by (simp add: eval_defs)

section \<open>Properties of the REST backend client\<close>

text \<open>
  C10 says that \<^verbatim>\<open>create\<close> writes the \<^verbatim>\<open>uuid\<close> key for every resource. It does not for a
  resource whose kind has no collection: the lookup in the collection map comes first
  and raises \<^verbatim>\<open>KeyError\<close>, and the caller's dict is as it was.
\<close>

theorem rest_create_unmapped_kind_counterexample:
  "rest_create example_rest [[(''name'', JStr ''v1'')]] empty_remote
     \<lparr>rr_uuid = ''u9'', rr_kind = ''volume'', rr_value = 0\<rparr>
   = (Inl (KeyError ''volume''), [[(''name'', JStr ''v1'')]], empty_remote)"
  by (simp add: rest_create_def example_rest_def)

text \<open>
  C10, amended. For every resource whose kind has a collection in the client's map,
  \<^verbatim>\<open>create\<close> changes the caller's resource in place: it writes the key \<^verbatim>\<open>uuid\<close>, the
  resource's own identity, into \<^verbatim>\<open>resource.value\<close> before any remote call, whatever the call
  then does, and the request it sends carries the changed dict. \<^verbatim>\<open>update\<close> works on a copy
  of \<^verbatim>\<open>resource.value\<close>: after it returns or fails, every dict that existed before,
  the caller's \<^verbatim>\<open>resource.value\<close> with its \<^verbatim>\<open>created_at\<close>, \<^verbatim>\<open>updated_at\<close>, \<^verbatim>\<open>project_id\<close> and
  \<^verbatim>\<open>uuid\<close> among them, is unchanged, and the request carries the copy without these four
  keys. For a kind without a collection both raise \<^verbatim>\<open>KeyError\<close> and change nothing.
\<close>

theorem rest_create_mutates_update_copies:
  assumes "rr_value r < length hp"
    and "rest_create rc hp rm r = (cres, hp_c, rm_c)"
    and "rest_update rc hp rm r = (ures, hp_u, rm_u)"
  shows "(\<forall>url. rc_collection_map rc (rr_kind r) = Some url \<longrightarrow>
            hp_c ! rr_value r = AList.update ''uuid'' (JStr (rr_uuid r)) (hp ! rr_value r)
            \<and> map_of (hp_c ! rr_value r) ''uuid'' = Some (JStr (rr_uuid r))
            \<and> length hp_c = length hp
            \<and> (\<forall>a<length hp. a \<noteq> rr_value r \<longrightarrow> hp_c ! a = hp ! a)
            \<and> (rm_requests rm_c = rm_requests rm
                \<or> rm_requests rm_c = rm_requests rm @ [HttpCreate url (hp_c ! rr_value r)]))
         \<and> (rc_collection_map rc (rr_kind r) = None \<longrightarrow>
            cres = Inl (KeyError (rr_kind r)) \<and> hp_c = hp \<and> rm_c = rm
            \<and> ures = Inl (KeyError (rr_kind r)) \<and> hp_u = hp \<and> rm_u = rm)
         \<and> (\<forall>a<length hp. hp_u ! a = hp ! a)
         \<and> (\<forall>url. rc_collection_map rc (rr_kind r) = Some url \<longrightarrow>
            rm_requests rm_u = rm_requests rm @
              [HttpUpdate url (rr_uuid r)
                 (AList.delete ''uuid'' (AList.delete ''project_id''
                    (AList.delete ''updated_at'' (AList.delete ''created_at''
                       (hp ! rr_value r)))))])"
proof -
  have create: "hp_c ! rr_value r = AList.update ''uuid'' (JStr (rr_uuid r)) (hp ! rr_value r)
            \<and> map_of (hp_c ! rr_value r) ''uuid'' = Some (JStr (rr_uuid r))
            \<and> length hp_c = length hp
            \<and> (\<forall>a<length hp. a \<noteq> rr_value r \<longrightarrow> hp_c ! a = hp ! a)
            \<and> (rm_requests rm_c = rm_requests rm
                \<or> rm_requests rm_c = rm_requests rm @ [HttpCreate url (hp_c ! rr_value r)])"
    if "rc_collection_map rc (rr_kind r) = Some url" for url
    using that assms(1,2)
    by (auto simp: rest_create_def Let_def sent_def update_conv' split: if_splits prod.splits)
  have none: "cres = Inl (KeyError (rr_kind r)) \<and> hp_c = hp \<and> rm_c = rm
            \<and> ures = Inl (KeyError (rr_kind r)) \<and> hp_u = hp \<and> rm_u = rm"
    if "rc_collection_map rc (rr_kind r) = None"
    using that assms(2,3) by (simp add: rest_create_def rest_update_def)
  have frame: "hp_u ! a = hp ! a" if "a < length hp" for a
    using that assms(3)
    by (auto simp: rest_update_def Let_def nth_append split: option.splits prod.splits)
  have sent_u: "rm_requests rm_u = rm_requests rm @
              [HttpUpdate url (rr_uuid r)
                 (AList.delete ''uuid'' (AList.delete ''project_id''
                    (AList.delete ''updated_at'' (AList.delete ''created_at''
                       (hp ! rr_value r)))))]"
    if "rc_collection_map rc (rr_kind r) = Some url" for url
    using that assms(3)
    by (auto simp: rest_update_def Let_def sent_def split: prod.splits)
  from create none frame sent_u show ?thesis
    by blast
qed


theorem rest_create_mutates_update_copies_witness:
  "rc_collection_map example_rest ''node'' = Some ''/v1/nodes/''
   \<and> fst (snd (rest_create example_rest
        [[(''name'', JStr ''n1''), (''uuid'', JStr ''stale''), (''project_id'', JStr ''p1''),
          (''created_at'', JStr ''2026-01-01'')]]
        remote_with_u1 \<lparr>rr_uuid = ''u1'', rr_kind = ''node'', rr_value = 0\<rparr>)) ! 0
     = [(''name'', JStr ''n1''), (''uuid'', JStr ''u1''), (''project_id'', JStr ''p1''),
        (''created_at'', JStr ''2026-01-01'')]
   \<and> fst (rest_create example_rest
        [[(''name'', JStr ''n1''), (''uuid'', JStr ''stale''), (''project_id'', JStr ''p1''),
          (''created_at'', JStr ''2026-01-01'')]]
        remote_with_u1 \<lparr>rr_uuid = ''u1'', rr_kind = ''node'', rr_value = 0\<rparr>)
     = Inl ClientResourceAlreadyExists
   \<and> fst (snd (rest_update example_rest
        [[(''name'', JStr ''n1''), (''uuid'', JStr ''stale''), (''project_id'', JStr ''p1''),
          (''created_at'', JStr ''2026-01-01'')]]
        remote_with_u1 \<lparr>rr_uuid = ''u1'', rr_kind = ''node'', rr_value = 0\<rparr>)) ! 0
     = [(''name'', JStr ''n1''), (''uuid'', JStr ''stale''), (''project_id'', JStr ''p1''),
        (''created_at'', JStr ''2026-01-01'')]
   \<and> rm_requests (snd (snd (rest_update example_rest
        [[(''name'', JStr ''n1''), (''uuid'', JStr ''stale''), (''project_id'', JStr ''p1''),
          (''created_at'', JStr ''2026-01-01'')]]
        remote_with_u1 \<lparr>rr_uuid = ''u1'', rr_kind = ''node'', rr_value = 0\<rparr>)))
     = [HttpUpdate ''/v1/nodes/'' ''u1'' [(''name'', JStr ''n1'')]]"
proof -
  let ?hp = "[[(''name'', JStr ''n1''), (''uuid'', JStr ''stale''), (''project_id'', JStr ''p1''),
               (''created_at'', JStr ''2026-01-01'')]]"
  let ?r = "\<lparr>rr_uuid = ''u1'', rr_kind = ''node'', rr_value = 0\<rparr>"
  let ?c = "rest_create example_rest ?hp remote_with_u1 ?r"
  let ?u = "rest_update example_rest ?hp remote_with_u1 ?r"
  have a: "rr_value ?r < length ?hp"
    by simp
  have c: "?c = (fst ?c, fst (snd ?c), snd (snd ?c))" and u: "?u = (fst ?u, fst (snd ?u), snd (snd ?u))"
    by simp_all
  have m: "rc_collection_map example_rest (rr_kind ?r) = Some ''/v1/nodes/''"
    by (simp add: example_rest_def)
  have e: "fst ?c = Inl ClientResourceAlreadyExists"
    by (simp add: eval_defs)
  from rest_create_mutates_update_copies [OF a c u] m e show ?thesis
    by (simp add: remote_with_u1_def)
qed


section \<open>Properties of dependency tracking\<close>

text \<open>
  C7. A tracked resource is reported stale if and only if its stored snapshot
  \<^verbatim>\<open>full_hash\<close> differs from the current \<^verbatim>\<open>full_hash\<close> of the target resource it references.
  The report is the view, computed from the tables as they are at each read; the table
  of tracked resources has no column that stores it. The tracked rows have their primary
  key \<^verbatim>\<open>uuid\<close>, and \<^verbatim>\<open>res_uuid\<close> is unique among the target rows, as the foreign key that
  references it requires.
\<close>

theorem stale_iff_full_hash_differs:
  assumes "t \<in> set trackeds" and "distinct (map tr_uuid trackeds)"
    and "u \<in> set targets" and "sql_eq (tr_target t) (tg_res_uuid u)"
    and "\<forall>u'\<in>set targets. tg_res_uuid u' = tg_res_uuid u \<longrightarrow> u' = u"
  shows "reported_stale trackeds targets actuals t \<longleftrightarrow> tr_full_hash t \<noteq> tg_full_hash u"
proof
  assume "reported_stale trackeds targets actuals t"
  then obtain t' u' a where t': "t' \<in> set trackeds" and u': "u' \<in> set targets"
    and j: "sql_eq (tr_target t') (tg_res_uuid u')"
    and h: "tr_full_hash t' \<noteq> tg_full_hash u'"
    and row: "o_uuid (outdated_row_of t' u' a) = tr_uuid t"
    by (auto simp: reported_stale_def outdated_tracked_full_hash_instances_view_def
          split: if_splits)
  from row have "tr_uuid t' = tr_uuid t"
    by (simp add: outdated_row_of_def)
  with t' assms(1,2) have "t' = t"
    by (simp add: distinct_map inj_on_def)
  with j assms(4) have "tg_res_uuid u' = tg_res_uuid u"
    by (auto simp: sql_eq_def)
  with u' assms(5) have "u' = u"
    by blast
  with h \<open>t' = t\<close> show "tr_full_hash t \<noteq> tg_full_hash u"
    by simp
next
  assume h: "tr_full_hash t \<noteq> tg_full_hash u"
  have "left_join_actual actuals t \<noteq> []"
    by (simp add: left_join_actual_def Let_def)
  then obtain a where "a \<in> set (left_join_actual actuals t)"
    by (cases "left_join_actual actuals t") auto
  with assms(1,3,4) h
  have "outdated_row_of t u a \<in> set (outdated_tracked_full_hash_instances_view trackeds targets actuals)"
    by (auto simp: outdated_tracked_full_hash_instances_view_def)
  moreover have "o_uuid (outdated_row_of t u a) = tr_uuid t"
    by (simp add: outdated_row_of_def)
  ultimately show "reported_stale trackeds targets actuals t"
    unfolding reported_stale_def by blast
qed


theorem stale_iff_full_hash_differs_witness:
  "reported_stale
     [\<lparr>tr_uuid = ''t1'', tr_watcher = Some ''w1'', tr_target = Some ''r1'',
       tr_watcher_kind = ''config'', tr_target_kind = ''node'', tr_hash = ''h0'',
       tr_full_hash = ''f0'', tr_created_at = 1, tr_updated_at = 1\<rparr>,
      \<lparr>tr_uuid = ''t2'', tr_watcher = Some ''w1'', tr_target = Some ''r2'',
       tr_watcher_kind = ''config'', tr_target_kind = ''node'', tr_hash = ''h2'',
       tr_full_hash = ''f2'', tr_created_at = 1, tr_updated_at = 1\<rparr>]
     [\<lparr>tg_uuid = ''a1'', tg_res_uuid = Some ''r1'', tg_full_hash = ''f1''\<rparr>,
      \<lparr>tg_uuid = ''a2'', tg_res_uuid = Some ''r2'', tg_full_hash = ''f2''\<rparr>]
     []
     \<lparr>tr_uuid = ''t1'', tr_watcher = Some ''w1'', tr_target = Some ''r1'',
      tr_watcher_kind = ''config'', tr_target_kind = ''node'', tr_hash = ''h0'',
      tr_full_hash = ''f0'', tr_created_at = 1, tr_updated_at = 1\<rparr>
   \<and> \<not> reported_stale
     [\<lparr>tr_uuid = ''t1'', tr_watcher = Some ''w1'', tr_target = Some ''r1'',
       tr_watcher_kind = ''config'', tr_target_kind = ''node'', tr_hash = ''h0'',
       tr_full_hash = ''f0'', tr_created_at = 1, tr_updated_at = 1\<rparr>,
      \<lparr>tr_uuid = ''t2'', tr_watcher = Some ''w1'', tr_target = Some ''r2'',
       tr_watcher_kind = ''config'', tr_target_kind = ''node'', tr_hash = ''h2'',
       tr_full_hash = ''f2'', tr_created_at = 1, tr_updated_at = 1\<rparr>]
     [\<lparr>tg_uuid = ''a1'', tg_res_uuid = Some ''r1'', tg_full_hash = ''f1''\<rparr>,
      \<lparr>tg_uuid = ''a2'', tg_res_uuid = Some ''r2'', tg_full_hash = ''f2''\<rparr>]
     []
     \<lparr>tr_uuid = ''t2'', tr_watcher = Some ''w1'', tr_target = Some ''r2'',
      tr_watcher_kind = ''config'', tr_target_kind = ''node'', tr_hash = ''h2'',
      tr_full_hash = ''f2'', tr_created_at = 1, tr_updated_at = 1\<rparr>"
proof -
  let ?t1 = "\<lparr>tr_uuid = ''t1'', tr_watcher = Some ''w1'', tr_target = Some ''r1'',
       tr_watcher_kind = ''config'', tr_target_kind = ''node'', tr_hash = ''h0'',
       tr_full_hash = ''f0'', tr_created_at = 1, tr_updated_at = 1\<rparr>"
  let ?t2 = "\<lparr>tr_uuid = ''t2'', tr_watcher = Some ''w1'', tr_target = Some ''r2'',
       tr_watcher_kind = ''config'', tr_target_kind = ''node'', tr_hash = ''h2'',
       tr_full_hash = ''f2'', tr_created_at = 1, tr_updated_at = 1\<rparr>"
  let ?u1 = "\<lparr>tg_uuid = ''a1'', tg_res_uuid = Some ''r1'', tg_full_hash = ''f1''\<rparr>"
  let ?u2 = "\<lparr>tg_uuid = ''a2'', tg_res_uuid = Some ''r2'', tg_full_hash = ''f2''\<rparr>"
  have d: "distinct (map tr_uuid [?t1, ?t2])"
    by simp
  have uq1: "\<forall>u'\<in>set [?u1, ?u2]. tg_res_uuid u' = tg_res_uuid ?u1 \<longrightarrow> u' = ?u1"
    by simp
  have uq2: "\<forall>u'\<in>set [?u1, ?u2]. tg_res_uuid u' = tg_res_uuid ?u2 \<longrightarrow> u' = ?u2"
    by simp
  have s1: "reported_stale [?t1, ?t2] [?u1, ?u2] [] ?t1
            \<longleftrightarrow> tr_full_hash ?t1 \<noteq> tg_full_hash ?u1"
    by (rule stale_iff_full_hash_differs [OF _ d _ _ uq1]) (simp_all add: sql_eq_def)
  have s2: "reported_stale [?t1, ?t2] [?u1, ?u2] [] ?t2
            \<longleftrightarrow> tr_full_hash ?t2 \<noteq> tg_full_hash ?u2"
    by (rule stale_iff_full_hash_differs [OF _ d _ _ uq2]) (simp_all add: sql_eq_def)
  from s1 s2 show ?thesis
    by simp
qed

section \<open>Properties of the delta payload protocol\<close>

text \<open>
  C6. For every poll: if the hash that the agent supplies equals the hash freshly
  computed over the assembled payload, the response is
  \<^verbatim>\<open>{capabilities: {}, facts: {}, hash: <the same hash>}\<close>; otherwise the response carries
  the full capabilities and facts and the newly computed hash. So a second poll that
  supplies the hash of the first gets the empty response with the same hash.
\<close>

theorem get_payload_delta:
  assumes "calculate_hash hash_method (JDict [(''capabilities'', capabilities), (''facts'', facts)])
           = Inr h"
  shows "(last_known_hash = h \<longrightarrow>
            get_payload hash_method capabilities facts version last_known_hash
            = Inr \<lparr>pr_capabilities = JDict [], pr_facts = JDict [], pr_hash = h\<rparr>)
         \<and> (last_known_hash \<noteq> h \<longrightarrow>
            get_payload hash_method capabilities facts version last_known_hash
            = Inr \<lparr>pr_capabilities = capabilities, pr_facts = facts, pr_hash = h\<rparr>)
         \<and> (\<forall>r1. get_payload hash_method capabilities facts version last_known_hash = Inr r1 \<longrightarrow>
               get_payload hash_method capabilities facts version (pr_hash r1)
               = Inr \<lparr>pr_capabilities = JDict [], pr_facts = JDict [], pr_hash = pr_hash r1\<rparr>)"
  using assms by (auto simp: get_payload_def)

theorem get_payload_delta_witness:
  "calculate_hash (\<lambda>s. s)
     (JDict [(''capabilities'', JDict [(''foo'', JDict [(''resources'', JList [])])]),
             (''facts'', JDict [])])
     = Inr (''{'' @ [CHR 0x22] @ ''capabilities'' @ [CHR 0x22] @ '':{'' @ [CHR 0x22] @ ''foo''
            @ [CHR 0x22] @ '':{'' @ [CHR 0x22] @ ''resources'' @ [CHR 0x22] @ '':[]}},''
            @ [CHR 0x22] @ ''facts'' @ [CHR 0x22] @ '':{}}'')
   \<and> get_payload (\<lambda>s. s) (JDict [(''foo'', JDict [(''resources'', JList [])])]) (JDict []) 0 []
     = Inr \<lparr>pr_capabilities = JDict [(''foo'', JDict [(''resources'', JList [])])],
            pr_facts = JDict [],
            pr_hash = ''{'' @ [CHR 0x22] @ ''capabilities'' @ [CHR 0x22] @ '':{'' @ [CHR 0x22]
              @ ''foo'' @ [CHR 0x22] @ '':{'' @ [CHR 0x22] @ ''resources'' @ [CHR 0x22]
              @ '':[]}},'' @ [CHR 0x22] @ ''facts'' @ [CHR 0x22] @ '':{}}''\<rparr>
   \<and> get_payload (\<lambda>s. s) (JDict [(''foo'', JDict [(''resources'', JList [])])]) (JDict []) 0
       (''{'' @ [CHR 0x22] @ ''capabilities'' @ [CHR 0x22] @ '':{'' @ [CHR 0x22] @ ''foo''
        @ [CHR 0x22] @ '':{'' @ [CHR 0x22] @ ''resources'' @ [CHR 0x22] @ '':[]}},''
        @ [CHR 0x22] @ ''facts'' @ [CHR 0x22] @ '':{}}'')
     = Inr \<lparr>pr_capabilities = JDict [], pr_facts = JDict [],
            pr_hash = ''{'' @ [CHR 0x22] @ ''capabilities'' @ [CHR 0x22] @ '':{'' @ [CHR 0x22]
              @ ''foo'' @ [CHR 0x22] @ '':{'' @ [CHR 0x22] @ ''resources'' @ [CHR 0x22]
              @ '':[]}},'' @ [CHR 0x22] @ ''facts'' @ [CHR 0x22] @ '':{}}''\<rparr>"
proof -
  let ?caps = "JDict [(''foo'', JDict [(''resources'', JList [])])]"
  let ?h = "''{'' @ [CHR 0x22] @ ''capabilities'' @ [CHR 0x22] @ '':{'' @ [CHR 0x22] @ ''foo''
            @ [CHR 0x22] @ '':{'' @ [CHR 0x22] @ ''resources'' @ [CHR 0x22] @ '':[]}},''
            @ [CHR 0x22] @ ''facts'' @ [CHR 0x22] @ '':{}}''"
  have h: "calculate_hash (\<lambda>s. s) (JDict [(''capabilities'', ?caps), (''facts'', JDict [])])
           = Inr ?h"
    by (simp add: calculate_hash_def encode_basestring_ascii_def escape_char_def)
  from get_payload_delta [OF h, of "[]" 0] get_payload_delta [OF h, of ?h 0] h
  show ?thesis
    by simp
qed



end
